theory Spec2Isabelle
  imports Complex_Main
begin

section \<open>The gateway between the quality service and the ticketing service\<close>

text \<open>
  The gateway (\<^verbatim>\<open>src/gateway/index.js\<close>) is a sequence of awaited calls to
  collaborators outside the process: the clock, the random generator, the timer, the
  OAuth endpoint, the project search of the quality service, the incident table of the
  ticketing service and the mail transport. Every such call is recorded as an
  \<open>event\<close> in a trace, and what the collaborator answers is a function of the trace
  up to and including the call: the outside world is any deterministic function of
  everything the gateway has done so far. The two module-level variables
  \<^verbatim>\<open>cachedToken\<close> and \<^verbatim>\<open>tokenExpiry\<close> are fields of the state that every
  operation takes and returns. Console output is not modelled, but the read of
  \<^verbatim>\<open>message\<close> from a caught value that feeds it is, since it throws when the
  value is \<^verbatim>\<open>undefined\<close>.
\<close>

subsection \<open>Failures\<close>

text \<open>
  What \<^verbatim>\<open>axios\<close> rejects with: \<^verbatim>\<open>error.message\<close>, \<^verbatim>\<open>error.response\<close>
  (present when the server answered outside 2xx) and \<^verbatim>\<open>error.request\<close> (present
  when a request was sent). Of \<^verbatim>\<open>error.response.data\<close> the code reads the field
  \<^verbatim>\<open>error\<close> and the JSON text.
\<close>

datatype http_error =
  HttpError (resp_status: int) (statusText: string) (data_error: "string option") (data_json: string)

datatype axios_error =
  AxiosError (ax_message: string) (ax_response: "http_error option") (ax_request: bool)

text \<open>
  A thrown value: \<^verbatim>\<open>undefined\<close> (the initial \<^verbatim>\<open>lastError\<close>), an
  \<^verbatim>\<open>Error\<close> made by the gateway with its message, or the rejection of axios
  passed on as it is.
\<close>

datatype failure = Undefined | Error string | Axios axios_error

text \<open>\<^verbatim>\<open>e.message\<close>; reading it from \<^verbatim>\<open>undefined\<close> is a TypeError (\<open>None\<close>).\<close>

fun message :: "failure \<Rightarrow> string option" where
  "message Undefined = None"
| "message (Error m) = Some m"
| "message (Axios a) = Some (ax_message a)"

text \<open>
  The TypeError that reading a property of \<^verbatim>\<open>undefined\<close> throws (its message
  abridged).
\<close>

definition TypeError :: failure where
  "TypeError = Error ''Cannot read properties of undefined''"

text \<open>JavaScript truthiness of an optional string and of an optional number.\<close>

definition truthy_str :: "string option \<Rightarrow> bool" where
  "truthy_str x = (case x of None \<Rightarrow> False | Some s \<Rightarrow> s \<noteq> [])"

definition truthy_num :: "int option \<Rightarrow> bool" where
  "truthy_num x = (case x of None \<Rightarrow> False | Some n \<Rightarrow> n \<noteq> 0)"

text \<open>A template placeholder \<^verbatim>\<open>${x}\<close> of a value that may be undefined.\<close>

definition render :: "string option \<Rightarrow> string" where
  "render x = (case x of None \<Rightarrow> ''undefined'' | Some s \<Rightarrow> s)"

text \<open>\<^verbatim>\<open>a || b\<close> on optional strings.\<close>

definition or_else :: "string option \<Rightarrow> string option \<Rightarrow> string option" where
  "or_else a b = (if truthy_str a then a else b)"

text \<open>The decimal text of a status code.\<close>

fun show_nat :: "nat \<Rightarrow> string" where
  "show_nat n =
     (if n < 10 then [char_of (48 + n)]
      else show_nat (n div 10) @ [char_of (48 + n mod 10)])"

definition show_int :: "int \<Rightarrow> string" where
  "show_int i = (if i < 0 then CHR ''-'' # show_nat (nat (- i)) else show_nat (nat i))"

subsection \<open>Messages of the collaborators\<close>

record payload =
  short_description :: string
  description :: string
  urgency :: string
  impact :: string

text \<open>
  The mail handed to \<^verbatim>\<open>transport.sendMail\<close>. Its text ends with the ISO
  rendering of the clock reading; the reading is kept as a number beside the text that
  precedes it.
\<close>

record mail =
  mail_from :: string
  mail_to :: string
  subject :: string
  text_head :: string
  text_timestamp :: nat

text \<open>The body of a 2xx answer of \<^verbatim>\<open>oauth_token.do\<close>.\<close>

record oauth_data =
  access_token :: "string option"
  expires_in :: "int option"

text \<open>The body of a 2xx answer of the project search: \<^verbatim>\<open>data?.components\<close>.\<close>

record component =
  name :: "string option"

record sonar_data =
  components :: "component list option"

text \<open>The body of a 2xx answer of the incident table: \<^verbatim>\<open>data?.result\<close>.\<close>

record incident =
  number :: "string option"
  sys_id :: "string option"

record incident_data =
  result :: "incident option"

subsection \<open>Events, the environment and the state\<close>

datatype event =
    EvNow
  | EvRandom
  | EvSleep real
  | EvOAuth
  | EvSonar string
  | EvIncident string payload
  | EvTransport
  | EvMail mail

text \<open>
  The environment: the configuration read from \<^verbatim>\<open>process.env\<close> and, for each
  collaborator, its answer to the last event of the given trace. A network call
  answers with a 2xx body or with the rejection of axios; a call into nodemailer
  returns or throws an \<^verbatim>\<open>Error\<close>, given by its message.
\<close>

record env =
  SERVICENOW_URL :: string
  SERVICENOW_INCIDENT_UI_PATH :: string
  SMTP_HOST :: "string option"
  EMAIL_FROM :: "string option"
  EMAIL_TO :: "string option"
  Date_now :: "event list \<Rightarrow> nat"
  Math_random :: "event list \<Rightarrow> real"
  oauth_post :: "event list \<Rightarrow> axios_error + oauth_data"
  sonar_get :: "event list \<Rightarrow> axios_error + sonar_data"
  incident_post :: "event list \<Rightarrow> axios_error + incident_data"
  createTransport :: "event list \<Rightarrow> string option"
  sendMail :: "event list \<Rightarrow> string option"

text \<open>
  The state: the token cache and the trace. The record is extensible, so that a
  theorem can run an operation on a state that carries one more field the gateway
  never reads.
\<close>

record world =
  cachedToken :: "string option"
  tokenExpiry :: "int option"
  trace :: "event list"

definition emit :: "event \<Rightarrow> 'z world_scheme \<Rightarrow> 'z world_scheme" where
  "emit e w = w\<lparr>trace := trace w @ [e]\<rparr>"

text \<open>\<^verbatim>\<open>Date.now()\<close>, in milliseconds since the epoch.\<close>

definition now :: "env \<Rightarrow> 'z world_scheme \<Rightarrow> nat \<times> 'z world_scheme" where
  "now E w = (let w1 = emit EvNow w in (Date_now E (trace w1), w1))"

definition random :: "env \<Rightarrow> 'z world_scheme \<Rightarrow> real \<times> 'z world_scheme" where
  "random E w = (let w1 = emit EvRandom w in (Math_random E (trace w1), w1))"

definition sleep :: "real \<Rightarrow> 'z world_scheme \<Rightarrow> 'z world_scheme" where
  "sleep ms w = emit (EvSleep ms) w"

subsection \<open>retryOperation\<close>

text \<open>
  The options of \<^verbatim>\<open>retryOperation\<close>; a call site that names only some of them
  updates \<open>default_policy\<close>, as the destructuring defaults do.
\<close>

record policy =
  retries :: int
  baseDelayMs :: real
  factor :: real
  jitterMs :: real
  label :: string

definition default_policy :: policy where
  "default_policy =
     \<lparr>retries = 3, baseDelayMs = 500, factor = 2, jitterMs = 100, label = ''operation''\<rparr>"

type_synonym ('a, 'z) operation = "'z world_scheme \<Rightarrow> (failure + 'a) \<times> 'z world_scheme"

text \<open>
  The \<^verbatim>\<open>while\<close> loop of \<^verbatim>\<open>retryOperation\<close> from the values of
  \<^verbatim>\<open>attempt\<close> and \<^verbatim>\<open>lastError\<close> at the loop test. \<^verbatim>\<open>break\<close> leaves
  the loop with \<^verbatim>\<open>lastError = err\<close>, which is then thrown. Before a retry the
  delay is computed, with its random draw, and the warning is written, which reads
  \<^verbatim>\<open>err.message\<close>.
\<close>

function retry_loop ::
  "env \<Rightarrow> ('a, 'z) operation \<Rightarrow> policy \<Rightarrow> nat \<Rightarrow> failure option \<Rightarrow> ('a, 'z) operation" where
  "retry_loop E fn pol attempt lastError w =
     (if int attempt \<le> retries pol then
        (case fn w of
           (Inr v, w1) \<Rightarrow> (Inr v, w1)
         | (Inl err, w1) \<Rightarrow>
             if int attempt = retries pol then (Inl err, w1)
             else
               (case random E w1 of
                  (r, w2) \<Rightarrow>
                    let delay = baseDelayMs pol * factor pol ^ attempt
                                + of_int \<lfloor>r * jitterMs pol\<rfloor>
                    in (case message err of
                          None \<Rightarrow> (Inl TypeError, w2)
                        | Some m \<Rightarrow>
                            retry_loop E fn pol (attempt + 1) (Some err) (sleep delay w2))))
      else (Inl (case lastError of None \<Rightarrow> Undefined | Some e \<Rightarrow> e), w))"
  by pat_completeness auto
termination
  by (relation "measure (\<lambda>(E, fn, pol, attempt, lastError, w). nat (retries pol + 1 - int attempt))")
     auto

declare retry_loop.simps [simp del]

definition retryOperation :: "env \<Rightarrow> ('a, 'z) operation \<Rightarrow> policy \<Rightarrow> ('a, 'z) operation" where
  "retryOperation E fn pol w = retry_loop E fn pol 0 None w"

subsection \<open>getSonarQubeProject\<close>

text \<open>
  The request is the event; the project key travels in it (the URL encoding of the key
  is left to the collaborator). The \<^verbatim>\<open>catch\<close> turns an answer outside 2xx and a
  missing answer into a new \<^verbatim>\<open>Error\<close> and rethrows anything else.
\<close>

definition getSonarQubeProject :: "env \<Rightarrow> string \<Rightarrow> (sonar_data, 'z) operation" where
  "getSonarQubeProject E projectKey w =
     (let w1 = emit (EvSonar projectKey) w in
      case sonar_get E (trace w1) of
        Inr data \<Rightarrow> (Inr data, w1)
      | Inl error \<Rightarrow>
          (case ax_response error of
             Some resp \<Rightarrow>
               (Inl (Error (''SonarQube API error: '' @ show_int (resp_status resp)
                            @ '' - '' @ statusText resp)), w1)
           | None \<Rightarrow>
               if ax_request error
               then (Inl (Error (''SonarQube API unreachable: '' @ ax_message error)), w1)
               else (Inl (Axios error), w1)))"

subsection \<open>getServiceNowToken\<close>

text \<open>
  The test \<^verbatim>\<open>cachedToken && tokenExpiry && Date.now() < tokenExpiry - 300000\<close>:
  the clock is read only when both variables are truthy. The result is the cached
  token when the test holds.
\<close>

definition cached_valid :: "env \<Rightarrow> 'z world_scheme \<Rightarrow> string option \<times> 'z world_scheme" where
  "cached_valid E w =
     (if truthy_str (cachedToken w) \<and> truthy_num (tokenExpiry w) then
        (case (cachedToken w, tokenExpiry w, now E w) of
           (Some tok, Some expiry, (t, w1)) \<Rightarrow>
             (if int t < expiry - 300000 then Some tok else None, w1)
         | _ \<Rightarrow> (None, w))
      else (None, w))"

text \<open>The \<^verbatim>\<open>catch\<close> of \<^verbatim>\<open>getServiceNowToken\<close>, applied to what its \<^verbatim>\<open>try\<close> threw.\<close>

fun oauth_catch :: "failure \<Rightarrow> failure" where
  "oauth_catch (Axios error) =
     (case ax_response error of
        Some resp \<Rightarrow>
          Error (''ServiceNow OAuth error: '' @ show_int (resp_status resp) @ '' - ''
                 @ render (or_else (data_error resp) (Some (statusText resp))))
      | None \<Rightarrow>
          if ax_request error then Error (''ServiceNow OAuth unreachable: '' @ ax_message error)
          else Axios error)"
| "oauth_catch e = e"

text \<open>\<^verbatim>\<open>data.expires_in || 1800\<close>\<close>

definition expiresIn :: "oauth_data \<Rightarrow> int" where
  "expiresIn data = (case expires_in data of None \<Rightarrow> 1800 | Some n \<Rightarrow> if n = 0 then 1800 else n)"

definition getServiceNowToken :: "env \<Rightarrow> (string, 'z) operation" where
  "getServiceNowToken E w =
     (case cached_valid E w of
        (Some tok, w1) \<Rightarrow> (Inr tok, w1)
      | (None, w1) \<Rightarrow>
          (let w2 = emit EvOAuth w1 in
           case oauth_post E (trace w2) of
             Inl error \<Rightarrow> (Inl (oauth_catch (Axios error)), w2)
           | Inr data \<Rightarrow>
               (case access_token data of
                  None \<Rightarrow> (Inl (oauth_catch (Error ''ServiceNow token missing in response'')), w2)
                | Some tok \<Rightarrow>
                    if tok = []
                    then (Inl (oauth_catch (Error ''ServiceNow token missing in response'')), w2)
                    else
                      (case now E w2 of
                         (t, w3) \<Rightarrow>
                           (Inr tok,
                            w3\<lparr>cachedToken := Some tok,
                               tokenExpiry := Some (int t + expiresIn data * 1000)\<rparr>)))))"

subsection \<open>createServiceNowIncident\<close>

text \<open>\<^verbatim>\<open>error.response?.status === 401\<close>\<close>

fun is_401 :: "failure \<Rightarrow> bool" where
  "is_401 (Axios error) =
     (case ax_response error of Some resp \<Rightarrow> resp_status resp = 401 | None \<Rightarrow> False)"
| "is_401 e = False"

fun incident_catch :: "failure \<Rightarrow> failure" where
  "incident_catch (Axios error) =
     (case ax_response error of
        Some resp \<Rightarrow>
          Error (''ServiceNow incident error: '' @ show_int (resp_status resp) @ '' - ''
                 @ data_json resp)
      | None \<Rightarrow>
          if ax_request error
          then Error (''ServiceNow incident API unreachable: '' @ ax_message error)
          else Axios error)"
| "incident_catch e = e"

text \<open>The \<^verbatim>\<open>try\<close> block: the POST and the test of \<^verbatim>\<open>data?.result\<close>.\<close>

definition incident_try :: "env \<Rightarrow> string \<Rightarrow> payload \<Rightarrow> (incident, 'z) operation" where
  "incident_try E token payload w =
     (let w1 = emit (EvIncident token payload) w in
      case incident_post E (trace w1) of
        Inl error \<Rightarrow> (Inl (Axios error), w1)
      | Inr data \<Rightarrow>
          (case result data of
             None \<Rightarrow> (Inl (Error ''Incident creation failed: no result in response''), w1)
           | Some r \<Rightarrow> (Inr r, w1)))"

definition createServiceNowIncident :: "env \<Rightarrow> string \<Rightarrow> payload \<Rightarrow> (incident, 'z) operation" where
  "createServiceNowIncident E token payload w =
     (case incident_try E token payload w of
        (Inr r, w1) \<Rightarrow> (Inr r, w1)
      | (Inl error, w1) \<Rightarrow>
          (let w2 = (if is_401 error then w1\<lparr>cachedToken := None, tokenExpiry := None\<rparr> else w1)
           in (Inl (incident_catch error), w2)))"

subsection \<open>sendIncidentEmail\<close>

text \<open>
  \<^verbatim>\<open>getTransport\<close> and \<^verbatim>\<open>transport.sendMail\<close> are calls into nodemailer; what
  they throw is an \<^verbatim>\<open>Error\<close> object, given here by its message.
\<close>

definition getTransport :: "env \<Rightarrow> (unit, 'z) operation" where
  "getTransport E w =
     (let w1 = emit EvTransport w in
      case createTransport E (trace w1) of
        Some m \<Rightarrow> (Inl (Error m), w1)
      | None \<Rightarrow> (Inr (), w1))"

definition bullet :: string where
  "bullet = [CHR 0xE2, CHR 0x80, CHR 0xA2]"

text \<open>The \<^verbatim>\<open>try\<close> block of \<^verbatim>\<open>sendIncidentEmail\<close>.\<close>

definition email_try ::
  "env \<Rightarrow> incident \<Rightarrow> string \<Rightarrow> string option \<Rightarrow> (unit, 'z) operation" where
  "email_try E inc projectKey projectName w =
     (case getTransport E w of
        (Inl e, w1) \<Rightarrow> (Inl e, w1)
      | (Inr u, w1) \<Rightarrow>
          (case now E w1 of
             (timestamp, w2) \<Rightarrow>
               (let link = SERVICENOW_URL E @ ''/'' @ SERVICENOW_INCIDENT_UI_PATH E
                           @ render (sys_id inc);
                    project = render (or_else projectName (Some projectKey));
                    m = \<lparr>mail_from = render (EMAIL_FROM E), mail_to = render (EMAIL_TO E),
                         subject = ''Incident: '' @ render (or_else (number inc) (sys_id inc))
                                   @ '' '' @ bullet @ '' Project: '' @ project,
                         text_head = ''Incident created for '' @ project
                                     @ [CHR 0x0A] @ ''Number: '' @ render (number inc)
                                     @ [CHR 0x0A] @ ''Link: '' @ link
                                     @ [CHR 0x0A] @ ''Timestamp: '',
                         text_timestamp = timestamp\<rparr>;
                    w3 = emit (EvMail m) w2
                in case sendMail E (trace w3) of
                     Some msg \<Rightarrow> (Inl (Error msg), w3)
                   | None \<Rightarrow> (Inr (), w3))))"

text \<open>
  The \<^verbatim>\<open>catch\<close> reads \<^verbatim>\<open>error.message\<close> for the log and returns normally; were
  the caught value \<^verbatim>\<open>undefined\<close>, that read would throw.
\<close>

definition sendIncidentEmail ::
  "env \<Rightarrow> incident \<Rightarrow> string \<Rightarrow> string option \<Rightarrow> (unit, 'z) operation" where
  "sendIncidentEmail E inc projectKey projectName w =
     (if \<not> truthy_str (SMTP_HOST E) \<or> \<not> truthy_str (EMAIL_FROM E) \<or> \<not> truthy_str (EMAIL_TO E)
      then (Inr (), w)
      else
        (case email_try E inc projectKey projectName w of
           (Inr u, w1) \<Rightarrow> (Inr (), w1)
         | (Inl error, w1) \<Rightarrow>
             (case message error of
                None \<Rightarrow> (Inl TypeError, w1)
              | Some m \<Rightarrow> (Inr (), w1))))"

subsection \<open>POST /create-incidents\<close>

record outcome =
  projectKey :: string
  status :: string
  incident :: "incident option"
  error :: "string option"

datatype body =
    ErrorBody string
  | FailureBody string string
  | BatchBody string "outcome list"
  | IncidentBody string incident
  | MessageBody string

record response =
  code :: int
  json :: body

text \<open>\<^verbatim>\<open>req.body.projectKeys\<close>: \<open>None\<close> when it is not an array.\<close>

record batch_request =
  projectKeys :: "string list option"

text \<open>\<^verbatim>\<open>projectData?.components?.[0]\<close>\<close>

definition first_component :: "sonar_data \<Rightarrow> component option" where
  "first_component projectData =
     (case components projectData of None \<Rightarrow> None | Some [] \<Rightarrow> None | Some (c # cs) \<Rightarrow> Some c)"

text \<open>The object literal \<^verbatim>\<open>payload\<close> of the batch loop.\<close>

definition batch_payload :: "component \<Rightarrow> string \<Rightarrow> payload" where
  "batch_payload component key =
     \<lparr>short_description = ''SonarQube issue: '' @ render (name component),
      description = ''Review analysis for '' @ render (name component) @ '' ('' @ key @ '')'',
      urgency = ''3'', impact = ''3''\<rparr>"

text \<open>
  The \<^verbatim>\<open>try\<close> block of one iteration of the loop over the keys; \<open>results\<close> is
  the array before the iteration and the value is the array after it.
\<close>

definition try_key ::
  "env \<Rightarrow> string \<Rightarrow> string \<Rightarrow> outcome list \<Rightarrow> (outcome list, 'z) operation" where
  "try_key E token key results w =
     (case retryOperation E (getSonarQubeProject E key)
             (default_policy\<lparr>retries := 2, label := ''sonarqube-'' @ key\<rparr>) w of
        (Inl e, w1) \<Rightarrow> (Inl e, w1)
      | (Inr projectData, w1) \<Rightarrow>
          (case first_component projectData of
             None \<Rightarrow>
               (Inr (results @ [\<lparr>projectKey = key, status = ''not_found'',
                                 incident = None, error = None\<rparr>]), w1)
           | Some component \<Rightarrow>
               (let payload = batch_payload component key
                in case retryOperation E (createServiceNowIncident E token payload)
                          (default_policy\<lparr>retries := 3, label := ''incident-'' @ key\<rparr>) w1 of
                     (Inl e, w2) \<Rightarrow> (Inl e, w2)
                   | (Inr inc, w2) \<Rightarrow>
                       (case sendIncidentEmail E inc key (name component) w2 of
                          (Inl e, w3) \<Rightarrow> (Inl e, w3)
                        | (Inr u, w3) \<Rightarrow>
                            (Inr (results @ [\<lparr>projectKey = key, status = ''incident_created'',
                                              incident = Some \<lparr>number = number inc,
                                                               sys_id = sys_id inc\<rparr>,
                                              error = None\<rparr>]), w3)))))"

text \<open>
  One iteration with its \<^verbatim>\<open>catch\<close>, which reads \<^verbatim>\<open>e.message\<close> and pushes
  the error record; a failure of that read leaves the loop.
\<close>

definition process_key ::
  "env \<Rightarrow> string \<Rightarrow> string \<Rightarrow> outcome list \<Rightarrow> (outcome list, 'z) operation" where
  "process_key E token key results w =
     (case try_key E token key results w of
        (Inr results', w1) \<Rightarrow> (Inr results', w1)
      | (Inl e, w1) \<Rightarrow>
          (case message e of
             None \<Rightarrow> (Inl TypeError, w1)
           | Some m \<Rightarrow>
               (Inr (results @ [\<lparr>projectKey = key, status = ''error'',
                                 incident = None, error = Some m\<rparr>]), w1)))"

fun batch_loop ::
  "env \<Rightarrow> string \<Rightarrow> string list \<Rightarrow> outcome list \<Rightarrow> (outcome list, 'z) operation" where
  "batch_loop E token [] results w = (Inr results, w)"
| "batch_loop E token (key # keys) results w =
     (case process_key E token key results w of
        (Inl e, w1) \<Rightarrow> (Inl e, w1)
      | (Inr results', w1) \<Rightarrow> batch_loop E token keys results' w1)"

text \<open>The outer \<^verbatim>\<open>try\<close> block of the handler.\<close>

definition batch_try :: "env \<Rightarrow> string list \<Rightarrow> (response, 'z) operation" where
  "batch_try E keys w =
     (case retryOperation E (getServiceNowToken E)
             (default_policy\<lparr>retries := 3, label := ''servicenow-oauth''\<rparr>) w of
        (Inl e, w1) \<Rightarrow> (Inl e, w1)
      | (Inr token, w1) \<Rightarrow>
          (case batch_loop E token keys [] w1 of
             (Inl e, w2) \<Rightarrow> (Inl e, w2)
           | (Inr results, w2) \<Rightarrow>
               (Inr \<lparr>code = 200, json = BatchBody ''Batch processed'' results\<rparr>, w2)))"

text \<open>
  The handler. Its value is the response sent, or \<open>None\<close> when the handler throws
  (the outer \<^verbatim>\<open>catch\<close> reads \<^verbatim>\<open>error.message\<close> too).
\<close>

definition create_incidents ::
  "env \<Rightarrow> batch_request \<Rightarrow> 'z world_scheme \<Rightarrow> response option \<times> 'z world_scheme" where
  "create_incidents E req w =
     (case projectKeys req of
        None \<Rightarrow> (Some \<lparr>code = 400, json = ErrorBody ''projectKeys must be non-empty array''\<rparr>, w)
      | Some keys \<Rightarrow>
          if length keys = 0
          then (Some \<lparr>code = 400, json = ErrorBody ''projectKeys must be non-empty array''\<rparr>, w)
          else if length keys > 50
          then (Some \<lparr>code = 400, json = ErrorBody ''projectKeys array too large (max 50)''\<rparr>, w)
          else
            (case batch_try E keys w of
               (Inr resp, w1) \<Rightarrow> (Some resp, w1)
             | (Inl err, w1) \<Rightarrow>
                 (case message err of
                    None \<Rightarrow> (None, w1)
                  | Some m \<Rightarrow>
                      (Some \<lparr>code = 500, json = FailureBody ''Batch processing failed'' m\<rparr>, w1))))"

subsection \<open>POST /sonarqube-webhook\<close>

text \<open>
  \<^verbatim>\<open>project?.key\<close>, \<^verbatim>\<open>project?.name\<close> and \<^verbatim>\<open>qualityGate?.status\<close> of the
  request body, each \<open>None\<close> when absent. In the handler \<open>key\<close> stands for
  the variable \<^verbatim>\<open>projectKey\<close>.
\<close>

record webhook_request =
  project_key :: "string option"
  project_name :: "string option"
  qualityGate_status :: "string option"

text \<open>The object literal \<^verbatim>\<open>payload\<close> of the webhook handler.\<close>

definition webhook_payload :: "webhook_request \<Rightarrow> string \<Rightarrow> payload" where
  "webhook_payload req key =
     (let project = render (or_else (project_name req) (Some key)) in
      \<lparr>short_description = ''Quality Gate failed: '' @ project,
       description = ''Project: '' @ project @ [CHR 0x0A]
                     @ ''Key: '' @ key @ [CHR 0x0A]
                     @ ''Quality Gate Status: '' @ render (qualityGate_status req),
       urgency = ''2'', impact = ''2''\<rparr>)"

definition webhook_try :: "env \<Rightarrow> webhook_request \<Rightarrow> (response, 'z) operation" where
  "webhook_try E req w =
     (case project_key req of
        None \<Rightarrow> (Inr \<lparr>code = 400, json = ErrorBody ''Missing project key in webhook payload''\<rparr>, w)
      | Some key \<Rightarrow>
          if key = []
          then (Inr \<lparr>code = 400, json = ErrorBody ''Missing project key in webhook payload''\<rparr>, w)
          else if qualityGate_status req \<noteq> Some ''OK'' then
            (case retryOperation E (getServiceNowToken E)
                    (default_policy\<lparr>retries := 3, label := ''servicenow-oauth''\<rparr>) w of
               (Inl e, w1) \<Rightarrow> (Inl e, w1)
             | (Inr token, w1) \<Rightarrow>
                 (let payload = webhook_payload req key
                  in case retryOperation E (createServiceNowIncident E token payload)
                            (default_policy\<lparr>retries := 3, label := ''incident-'' @ key\<rparr>) w1 of
                       (Inl e, w2) \<Rightarrow> (Inl e, w2)
                     | (Inr inc, w2) \<Rightarrow>
                         (case sendIncidentEmail E inc key (project_name req) w2 of
                            (Inl e, w3) \<Rightarrow> (Inl e, w3)
                          | (Inr u, w3) \<Rightarrow>
                              (Inr \<lparr>code = 200,
                                    json = IncidentBody ''Incident created from webhook''
                                             \<lparr>number = number inc, sys_id = sys_id inc\<rparr>\<rparr>, w3))))
          else (Inr \<lparr>code = 200, json = MessageBody ''Quality Gate OK, no action needed''\<rparr>, w))"

definition sonarqube_webhook ::
  "env \<Rightarrow> webhook_request \<Rightarrow> 'z world_scheme \<Rightarrow> response option \<times> 'z world_scheme" where
  "sonarqube_webhook E req w =
     (case webhook_try E req w of
        (Inr resp, w1) \<Rightarrow> (Some resp, w1)
      | (Inl err, w1) \<Rightarrow>
          (case message err of
             None \<Rightarrow> (None, w1)
           | Some m \<Rightarrow>
               (Some \<lparr>code = 500, json = FailureBody ''Webhook processing failed'' m\<rparr>, w1)))"

section \<open>Vocabulary of the properties\<close>

text \<open>
  \<open>logged fn\<close> is \<open>fn\<close> run on a state whose extra field is a list: every invocation
  appends its own result to it, whatever \<open>fn\<close> did to the field. The gateway never
  touches the field, so after a run it holds the results of the invocations of \<open>fn\<close>,
  in order.
\<close>

definition logged :: "('a, (failure + 'a) list) operation \<Rightarrow> ('a, (failure + 'a) list) operation" where
  "logged fn w = (case fn w of (r, w1) \<Rightarrow> (r, w1\<lparr>world.more := world.more w @ [r]\<rparr>))"

text \<open>The delays of the calls of \<^verbatim>\<open>sleep\<close> in a trace, in order.\<close>

fun sleeps :: "event list \<Rightarrow> real list" where
  "sleeps [] = []"
| "sleeps (EvSleep ms # tr) = ms # sleeps tr"
| "sleeps (e # tr) = sleeps tr"

text \<open>
  \<open>grows A w w'\<close>: the trace of \<open>w'\<close> is the trace of \<open>w\<close> followed by events of
  \<open>A\<close> only.
\<close>

definition grows :: "event set \<Rightarrow> 'z world_scheme \<Rightarrow> 'z world_scheme \<Rightarrow> bool" where
  "grows A w w' \<longleftrightarrow> (\<exists>d. trace w' = trace w @ d \<and> set d \<subseteq> A)"

text \<open>The two variables of the token cache.\<close>

definition cache :: "'z world_scheme \<Rightarrow> string option \<times> int option" where
  "cache w = (cachedToken w, tokenExpiry w)"

text \<open>
  The OAuth exchange whose request ends the trace \<open>h\<close> failed: the call was rejected or
  the body has no \<^verbatim>\<open>access_token\<close>.
\<close>

definition exchange_failed :: "env \<Rightarrow> event list \<Rightarrow> bool" where
  "exchange_failed E h =
     (case oauth_post E h of Inl err \<Rightarrow> True | Inr data \<Rightarrow> \<not> truthy_str (access_token data))"

text \<open>The incident POST whose request ends the trace \<open>h\<close> was answered with status 401.\<close>

definition answered_401 :: "env \<Rightarrow> event list \<Rightarrow> bool" where
  "answered_401 E h =
     (case incident_post E h of
        Inl err \<Rightarrow> (case ax_response err of Some resp \<Rightarrow> resp_status resp = 401 | None \<Rightarrow> False)
      | Inr data \<Rightarrow> False)"

text \<open>
  The tokens of the incident POSTs of a trace, in order, and the number of its OAuth
  exchanges.
\<close>

fun incident_tokens :: "event list \<Rightarrow> string list" where
  "incident_tokens [] = []"
| "incident_tokens (EvIncident tok p # tr) = tok # incident_tokens tr"
| "incident_tokens (e # tr) = incident_tokens tr"

fun oauth_calls :: "event list \<Rightarrow> nat" where
  "oauth_calls [] = 0"
| "oauth_calls (EvOAuth # tr) = Suc (oauth_calls tr)"
| "oauth_calls (e # tr) = oauth_calls tr"

section \<open>Scenarios\<close>

text \<open>
  An environment in which every collaborator answers well: the clock stands at 1000,
  the random generator gives one half, mail is not configured.
\<close>

definition calm_env :: env where
  "calm_env =
     \<lparr>SERVICENOW_URL = ''https://sn.example'',
      SERVICENOW_INCIDENT_UI_PATH = ''nav_to.do?uri=incident.do?sys_id='',
      SMTP_HOST = None, EMAIL_FROM = None, EMAIL_TO = None,
      Date_now = (\<lambda>h. 1000),
      Math_random = (\<lambda>h. 1 / 2),
      oauth_post = (\<lambda>h. Inr \<lparr>access_token = Some ''token-1'', expires_in = Some 3600\<rparr>),
      sonar_get = (\<lambda>h. Inr \<lparr>components = Some [\<lparr>name = Some ''Project One''\<rparr>]\<rparr>),
      incident_post =
        (\<lambda>h. Inr \<lparr>result = Some \<lparr>number = Some ''INC0001'', sys_id = Some ''abc''\<rparr>\<rparr>),
      createTransport = (\<lambda>h. None),
      sendMail = (\<lambda>h. None)\<rparr>"

definition timed_out :: axios_error where
  "timed_out = AxiosError ''timeout of 15000ms exceeded'' None True"

text \<open>The quality service does not answer.\<close>

definition sonar_down_env :: env where
  "sonar_down_env = calm_env\<lparr>sonar_get := (\<lambda>h. Inl timed_out)\<rparr>"

definition empty_world :: world where
  "empty_world = \<lparr>cachedToken = None, tokenExpiry = None, trace = []\<rparr>"

definition logging_world :: "(failure + sonar_data) list world_scheme" where
  "logging_world = \<lparr>cachedToken = None, tokenExpiry = None, trace = [], \<dots> = []\<rparr>"

definition two_retries :: policy where
  "two_retries = default_policy\<lparr>retries := 2, label := ''sonarqube-p''\<rparr>"

text \<open>The ticketing service rejects every token; the OAuth endpoint does not answer.\<close>

definition unauthorized :: axios_error where
  "unauthorized = AxiosError ''Request failed with status code 401''
     (Some (HttpError 401 ''Unauthorized'' None ''{}'')) True"

definition unauthorized_env :: env where
  "unauthorized_env = calm_env\<lparr>incident_post := (\<lambda>h. Inl unauthorized)\<rparr>"

definition oauth_down_env :: env where
  "oauth_down_env = calm_env\<lparr>oauth_post := (\<lambda>h. Inl timed_out)\<rparr>"

text \<open>
  A cached token far from its expiry at clock reading 1000, and one inside the
  five-minute buffer.
\<close>

definition warm_world :: world where
  "warm_world = \<lparr>cachedToken = Some ''token-0'', tokenExpiry = Some 3601000, trace = []\<rparr>"

definition expired_world :: world where
  "expired_world = \<lparr>cachedToken = Some ''token-0'', tokenExpiry = Some 200000, trace = []\<rparr>"

definition some_payload :: payload where
  "some_payload = \<lparr>short_description = ''Quality Gate failed: p'', description = ''Project: p'',
                    urgency = ''2'', impact = ''2''\<rparr>"

text \<open>
  The project search fails for the key \<open>k2\<close> only; the project search finds no
  component; mail is configured and every send fails.
\<close>

definition second_key_fails_env :: env where
  "second_key_fails_env =
     calm_env\<lparr>sonar_get :=
       (\<lambda>h. case last h of
               EvSonar k \<Rightarrow>
                 if k = ''k2'' then Inl timed_out
                 else Inr \<lparr>components = Some [\<lparr>name = Some ''Project One''\<rparr>]\<rparr>
             | _ \<Rightarrow> Inl timed_out)\<rparr>"

definition three_keys :: batch_request where
  "three_keys = \<lparr>projectKeys = Some [''k1'', ''k2'', ''k3'']\<rparr>"

definition no_components_env :: env where
  "no_components_env = calm_env\<lparr>sonar_get := (\<lambda>h. Inr \<lparr>components = Some []\<rparr>)\<rparr>"

definition mail_failing_env :: env where
  "mail_failing_env =
     calm_env\<lparr>SMTP_HOST := Some ''smtp.example'', EMAIL_FROM := Some ''gateway@example'',
              EMAIL_TO := Some ''team@example'',
              sendMail := (\<lambda>h. Some ''connect ECONNREFUSED'')\<rparr>"

text \<open>
  The first OAuth exchange yields the token \<open>stale\<close> and every later one the token
  \<open>fresh\<close>; the ticketing service answers 401 to every token but \<open>fresh\<close>.
\<close>

definition stale_env :: env where
  "stale_env =
     calm_env\<lparr>oauth_post :=
                (\<lambda>h. Inr \<lparr>access_token = Some (if oauth_calls h = 1 then ''stale'' else ''fresh''),
                           expires_in = Some 3600\<rparr>),
              incident_post :=
                (\<lambda>h. if last (incident_tokens h) = ''fresh''
                      then Inr \<lparr>result = Some \<lparr>number = Some ''INC0001'', sys_id = Some ''abc''\<rparr>\<rparr>
                      else Inl unauthorized)\<rparr>"

text \<open>Two webhook requests for the project \<open>p\<close>: a failed quality gate and a passed one.\<close>

definition gate_failed :: webhook_request where
  "gate_failed =
     \<lparr>project_key = Some ''p'', project_name = Some ''Project One'',
      qualityGate_status = Some ''ERROR''\<rparr>"

definition gate_ok :: webhook_request where
  "gate_ok =
     \<lparr>project_key = Some ''p'', project_name = Some ''Project One'',
      qualityGate_status = Some ''OK''\<rparr>"

section \<open>Properties of retryOperation\<close>

lemma trace_emit [simp]: "trace (emit e w) = trace w @ [e]"
  and cachedToken_emit [simp]: "cachedToken (emit e w) = cachedToken w"
  and tokenExpiry_emit [simp]: "tokenExpiry (emit e w) = tokenExpiry w"
  and more_emit [simp]: "world.more (emit e w) = world.more w"
  by (simp_all add: emit_def)

lemma more_random [simp]: "world.more (snd (random E w)) = world.more w"
  by (simp add: random_def Let_def)

lemma more_sleep [simp]: "world.more (sleep d w) = world.more w"
  by (simp add: sleep_def)

lemma logged_more: "logged fn w = (r, w1) \<Longrightarrow> world.more w1 = world.more w @ [r]"
  by (auto simp: logged_def split: prod.splits)

lemma sleeps_append [simp]: "sleeps (xs @ ys) = sleeps xs @ sleeps ys"
  by (induction xs rule: sleeps.induct) simp_all

lemma grows_refl: "grows A w w"
  by (simp add: grows_def)

lemma grows_trans: "grows A a b \<Longrightarrow> grows A b c \<Longrightarrow> grows A a c"
  by (auto simp: grows_def)

lemma grows_emit: "e \<in> A \<Longrightarrow> grows A w (emit e w)"
  by (simp add: grows_def)

lemma grows_random: "EvRandom \<in> A \<Longrightarrow> grows A w (snd (random E w))"
  by (simp add: random_def Let_def grows_emit)

lemma grows_sleep: "range EvSleep \<subseteq> A \<Longrightarrow> grows A w (sleep d w)"
  by (auto simp: sleep_def intro: grows_emit)

text \<open>
  A relation between states that is reflexive and transitive and holds across a random
  draw, a sleep and an invocation of the operation holds across the loop.
\<close>

lemma retry_loop_rel:
  assumes refl: "\<And>w. R w w" and trans: "\<And>a b c. R a b \<Longrightarrow> R b c \<Longrightarrow> R a c"
    and rnd: "\<And>w. R w (snd (random E w))" and slp: "\<And>d w. R w (sleep d w)"
    and fn: "\<And>w. R w (snd (fn w))"
  shows "R w (snd (retry_loop E fn pol attempt lastError w))"
proof (induction attempt arbitrary: lastError w
       rule: measure_induct_rule[where f = "\<lambda>a. nat (retries pol + 1 - int a)"])
  case (less attempt)
  note unfold = retry_loop.simps[of E fn pol attempt lastError w]
  show ?case
  proof (cases "int attempt \<le> retries pol")
    case False
    then show ?thesis by (simp add: unfold refl)
  next
    case le: True
    obtain r1 w1 where f: "fn w = (r1, w1)" by (cases "fn w")
    have R1: "R w w1" using fn[of w] f by simp
    show ?thesis
    proof (cases "isl r1 \<and> int attempt \<noteq> retries pol")
      case False
      then have "retry_loop E fn pol attempt lastError w = (r1, w1)"
        using f le by (cases r1) (auto simp: unfold)
      with R1 show ?thesis by simp
    next
      case True
      then obtain err where err: "r1 = Inl err" by (cases r1) auto
      obtain x w2 where rd: "random E w1 = (x, w2)" by (cases "random E w1")
      have R2: "R w w2" using R1 rnd[of w1] rd by (auto intro: trans)
      show ?thesis
      proof (cases "message err")
        case None
        with f err True rd le have "retry_loop E fn pol attempt lastError w = (Inl TypeError, w2)"
          by (simp add: unfold)
        with R2 show ?thesis by simp
      next
        case (Some m)
        define d where "d = baseDelayMs pol * factor pol ^ attempt + of_int \<lfloor>x * jitterMs pol\<rfloor>"
        have rec: "retry_loop E fn pol attempt lastError w
                   = retry_loop E fn pol (attempt + 1) (Some err) (sleep d w2)"
          using f err True rd le Some by (simp add: unfold d_def)
        have "nat (retries pol + 1 - int (attempt + 1)) < nat (retries pol + 1 - int attempt)"
          using True le by simp
        from less.IH[OF this, of "sleep d w2" "Some err"]
        have "R (sleep d w2) (snd (retry_loop E fn pol (attempt + 1) (Some err) (sleep d w2)))" .
        moreover have "R w (sleep d w2)" using R2 slp[of w2 d] by (rule trans)
        ultimately show ?thesis unfolding rec by (rule trans[rotated])
      qed
    qed
  qed
qed

text \<open>
  Entered with \<open>attempt \<le> retries\<close> on an operation that throws error objects only,
  the loop returns right after an invocation of the operation, with its result and
  state.
\<close>

lemma retry_loop_last:
  assumes refl: "\<And>w. R w w" and trans: "\<And>a b c. R a b \<Longrightarrow> R b c \<Longrightarrow> R a c"
    and rnd: "\<And>w. R w (snd (random E w))" and slp: "\<And>d w. R w (sleep d w)"
    and fn: "\<And>w. R w (snd (fn w))"
    and msg: "\<And>w e w'. fn w = (Inl e, w') \<Longrightarrow> message e \<noteq> None"
  shows "retry_loop E fn pol attempt lastError w = (r, w') \<Longrightarrow> int attempt \<le> retries pol \<Longrightarrow>
         \<exists>w0. R w w0 \<and> fn w0 = (r, w')"
proof (induction attempt arbitrary: lastError w
       rule: measure_induct_rule[where f = "\<lambda>a. nat (retries pol + 1 - int a)"])
  case (less attempt)
  note unfold = retry_loop.simps[of E fn pol attempt lastError w]
  obtain r1 w1 where f: "fn w = (r1, w1)" by (cases "fn w")
  show ?case
  proof (cases "isl r1 \<and> int attempt \<noteq> retries pol")
    case False
    then have "retry_loop E fn pol attempt lastError w = (r1, w1)"
      using f less.prems(2) by (cases r1) (auto simp: unfold)
    with less.prems(1) f refl show ?thesis by auto
  next
    case True
    then obtain err where err: "r1 = Inl err" by (cases r1) auto
    with f msg obtain m where m: "message err = Some m" by blast
    obtain x w2 where rd: "random E w1 = (x, w2)" by (cases "random E w1")
    define d where "d = baseDelayMs pol * factor pol ^ attempt + of_int \<lfloor>x * jitterMs pol\<rfloor>"
    have rec: "retry_loop E fn pol (attempt + 1) (Some err) (sleep d w2) = (r, w')"
      using less.prems f err True rd m by (simp add: d_def unfold)
    have le: "int (attempt + 1) \<le> retries pol" using True less.prems(2) by simp
    have "nat (retries pol + 1 - int (attempt + 1)) < nat (retries pol + 1 - int attempt)"
      using le by simp
    from less.IH[OF this rec le] obtain w0 where w0: "R (sleep d w2) w0" "fn w0 = (r, w')"
      by blast
    have "R w w1" using fn[of w] f by simp
    moreover have "R w1 w2" using rnd[of w1] rd by simp
    moreover have "R w2 (sleep d w2)" by (rule slp)
    ultimately have "R w w0" using w0(1) by (blast intro: trans)
    with w0(2) show ?thesis by blast
  qed
qed

lemma retry_loop_exhausted:
  "\<not> int attempt \<le> retries pol \<Longrightarrow>
   retry_loop E fn pol attempt lastError w
   = (Inl (case lastError of None \<Rightarrow> Undefined | Some e \<Rightarrow> e), w)"
  by (simp add: retry_loop.simps[of E fn pol attempt])

lemma retryOperation_last:
  assumes refl: "\<And>w. R w w" and trans: "\<And>a b c. R a b \<Longrightarrow> R b c \<Longrightarrow> R a c"
    and rnd: "\<And>w. R w (snd (random E w))" and slp: "\<And>d w. R w (sleep d w)"
    and fn: "\<And>w. R w (snd (fn w))"
    and msg: "\<And>w e w'. fn w = (Inl e, w') \<Longrightarrow> message e \<noteq> None"
    and run: "retryOperation E fn pol w = (r, w')" and nonneg: "0 \<le> retries pol"
  shows "\<exists>w0. R w w0 \<and> fn w0 = (r, w')"
  using retry_loop_last[of R E fn pol 0 None w r w', OF refl trans rnd slp fn msg] run nonneg
  by (simp add: retryOperation_def)

lemma retryOperation_grows_always:
  assumes fn: "\<And>w. grows A w (snd (fn w))" and A: "EvRandom \<in> A" "range EvSleep \<subseteq> A"
  shows "grows A w (snd (retryOperation E fn pol w))"
  unfolding retryOperation_def
  by (rule retry_loop_rel[where R = "grows A"])
     (simp_all add: grows_refl grows_random grows_sleep A fn, erule (1) grows_trans)

text \<open>
  Entered with \<open>attempt \<le> retries\<close> on an operation that throws error objects only,
  the loop invokes the operation at least once and at most \<open>retries + 1 - attempt\<close>
  times, all invocations but the last failed, and the result of the last invocation
  is the result of the loop.
\<close>

lemma retry_loop_log:
  assumes msg: "\<And>w e w'. fn w = (Inl e, w') \<Longrightarrow> message e \<noteq> None"
  shows "retry_loop E (logged fn) pol attempt lastError w = (r, w') \<Longrightarrow>
     int attempt \<le> retries pol \<Longrightarrow>
   \<exists>rs. world.more w' = world.more w @ rs \<and> rs \<noteq> []
        \<and> int (length rs) \<le> retries pol + 1 - int attempt
        \<and> last rs = r \<and> (\<forall>x \<in> set (butlast rs). isl x)"
proof (induction E "logged fn" pol attempt lastError w rule: retry_loop.induct)
  case (1 E pol attempt lastError w)
  note unfold = retry_loop.simps[of E "logged fn" pol attempt]
  obtain r1 w1 where f: "logged fn w = (r1, w1)" by (cases "logged fn w")
  have m1: "world.more w1 = world.more w @ [r1]" using f by (rule logged_more)
  show ?case
  proof (cases r1)
    case (Inr v)
    with 1(2,3) f have "r = r1" "w' = w1" by (simp_all add: unfold)
    with m1 "1.prems" show ?thesis by (intro exI[of _ "[r1]"]) simp
  next
    case (Inl err)
    show ?thesis
    proof (cases "int attempt = retries pol")
      case True
      with 1(2,3) f Inl have "r = r1" "w' = w1" by (simp_all add: unfold)
      with m1 "1.prems" show ?thesis by (intro exI[of _ "[r1]"]) simp
    next
      case False
      have "message err \<noteq> None"
        using f Inl msg[of w err] by (auto simp: logged_def split: prod.splits)
      then obtain m where m: "message err = Some m" by auto
      obtain x w2 where rd: "random E w1 = (x, w2)" by (cases "random E w1")
      define d where "d = baseDelayMs pol * factor pol ^ attempt + of_int \<lfloor>x * jitterMs pol\<rfloor>"
      have rec: "retry_loop E (logged fn) pol (attempt + 1) (Some err) (sleep d w2) = (r, w')"
        using 1(2,3) f Inl False rd m by (simp add: d_def unfold)
      have le: "int (attempt + 1) \<le> retries pol" using False "1.prems" by simp
      have m2: "world.more (sleep d w2) = world.more w1"
        using more_random[of E w1] rd by simp
      from "1.hyps"[OF "1.prems"(2) f[symmetric] Inl False rd[symmetric] d_def m rec le]
      obtain rs where rs: "world.more w' = world.more (sleep d w2) @ rs" "rs \<noteq> []"
         "int (length rs) \<le> retries pol + 1 - int (attempt + 1)" "last rs = r"
         "\<forall>x \<in> set (butlast rs). isl x"
        by blast
      show ?thesis
        using rs m1 m2 Inl by (intro exI[of _ "r1 # rs"]) auto
    qed
  qed
qed

text \<open>
  C2. For every operation that throws error objects and every policy with
  \<open>retries \<ge> 0\<close>, \<open>retryOperation\<close> invokes the operation at least once and at most
  \<open>retries + 1\<close> times, and what it returns or throws is exactly what the last
  invocation returned or threw; in particular, when every attempt fails, the error of
  the final attempt reaches the caller unchanged. Here \<open>rs\<close> is the list of the
  results of the invocations.
\<close>

theorem retry_bound:
  assumes "0 \<le> retries pol"
    and "\<forall>w e w'. fn w = (Inl e, w') \<longrightarrow> message e \<noteq> None"
    and "retryOperation E (logged fn) pol w = (r, w')"
  shows "\<exists>rs. world.more w' = world.more w @ rs \<and> 1 \<le> length rs
        \<and> int (length rs) \<le> retries pol + 1
        \<and> last rs = r \<and> (\<forall>x \<in> set (butlast rs). isl x)"
proof -
  have msg: "message e \<noteq> None" if "fn w = (Inl e, w')" for w e w'
    using assms(2) that by blast
  have "\<exists>rs. world.more w' = world.more w @ rs \<and> rs \<noteq> []
        \<and> int (length rs) \<le> retries pol + 1 - int 0
        \<and> last rs = r \<and> (\<forall>x \<in> set (butlast rs). isl x)"
  proof (rule retry_loop_log[where fn = fn and E = E and lastError = None])
    show "retry_loop E (logged fn) pol 0 None w = (r, w')"
      using assms(3) by (simp add: retryOperation_def)
    show "int 0 \<le> retries pol" using assms(1) by simp
  qed (rule msg)
  then obtain rs where "world.more w' = world.more w @ rs" "rs \<noteq> []"
    "int (length rs) \<le> retries pol + 1" "last rs = r" "\<forall>x \<in> set (butlast rs). isl x"
    by auto
  then show ?thesis by (intro exI[of _ rs]) (cases rs; simp)
qed

lemmas scenario_defs =
  calm_env_def sonar_down_env_def timed_out_def empty_world_def logging_world_def
  two_retries_def default_policy_def

theorem retry_bound_witness:
  "0 \<le> retries two_retries \<and>
   (\<exists>w'. retryOperation sonar_down_env (logged (getSonarQubeProject sonar_down_env ''p''))
            two_retries logging_world
         = (Inl (Error ''SonarQube API unreachable: timeout of 15000ms exceeded''), w')
      \<and> (\<exists>rs. world.more w' = world.more logging_world @ rs \<and> 1 \<le> length rs
            \<and> int (length rs) \<le> retries two_retries + 1
            \<and> last rs = Inl (Error ''SonarQube API unreachable: timeout of 15000ms exceeded'')
            \<and> (\<forall>x \<in> set (butlast rs). isl x)))"
proof -
  have h: "0 \<le> retries two_retries" by (simp add: scenario_defs)
  obtain w' where run:
    "retryOperation sonar_down_env (logged (getSonarQubeProject sonar_down_env ''p''))
       two_retries logging_world
     = (Inl (Error ''SonarQube API unreachable: timeout of 15000ms exceeded''), w')"
    by (simp add: scenario_defs retryOperation_def retry_loop.simps getSonarQubeProject_def
        logged_def emit_def random_def sleep_def Let_def)
  have msg: "\<forall>(w :: (failure + sonar_data) list world_scheme) e w'.
      getSonarQubeProject sonar_down_env ''p'' w = (Inl e, w') \<longrightarrow> message e \<noteq> None"
    by (auto simp: getSonarQubeProject_def Let_def split: sum.splits option.splits if_splits)
  from retry_bound[OF h msg run] h run show ?thesis by blast
qed

lemma jitter_bounds:
  assumes "0 \<le> x" "x < 1" "0 < (j::real)"
  shows "0 \<le> \<lfloor>x * j\<rfloor> \<and> of_int \<lfloor>x * j\<rfloor> < j"
proof
  show "0 \<le> \<lfloor>x * j\<rfloor>" using assms by simp
  have "of_int \<lfloor>x * j\<rfloor> \<le> x * j" by simp
  also have "x * j < j" using assms by simp
  finally show "of_int \<lfloor>x * j\<rfloor> < j" .
qed

text \<open>The log of a loop entered with \<open>attempt \<le> retries\<close> grows.\<close>

lemma retry_loop_invokes:
  "int attempt \<le> retries pol \<Longrightarrow>
   world.more (snd (retry_loop E (logged fn) pol attempt lastError w)) \<noteq> world.more w"
proof -
  assume le: "int attempt \<le> retries pol"
  obtain r1 w1 where f: "logged fn w = (r1, w1)" by (cases "logged fn w")
  have R: "\<exists>d. world.more (snd (retry_loop E (logged fn) pol a l v)) = world.more v @ d"
    for a l and v :: "(failure + 'a) list world_scheme"
    by (rule retry_loop_rel[where R = "\<lambda>a b. \<exists>d. world.more b = world.more a @ d"])
       (auto simp: logged_def split: prod.splits)
  note unfold = retry_loop.simps[of E "logged fn" pol attempt lastError w]
  have m1: "world.more w1 = world.more w @ [r1]" using f by (rule logged_more)
  show ?thesis
  proof (cases "isl r1 \<and> int attempt \<noteq> retries pol")
    case False
    then have "retry_loop E (logged fn) pol attempt lastError w = (r1, w1)"
      using f le by (cases r1) (auto simp: unfold)
    with m1 show ?thesis by simp
  next
    case True
    then obtain err where err: "r1 = Inl err" by (cases r1) auto
    obtain x w2 where rd: "random E w1 = (x, w2)" by (cases "random E w1")
    have m2: "world.more w2 = world.more w1" using more_random[of E w1] rd by simp
    show ?thesis
    proof (cases "message err")
      case None
      with f err True rd le have "retry_loop E (logged fn) pol attempt lastError w = (Inl TypeError, w2)"
        by (simp add: unfold)
      with m1 m2 show ?thesis by simp
    next
      case (Some m)
      define d where "d = baseDelayMs pol * factor pol ^ attempt + of_int \<lfloor>x * jitterMs pol\<rfloor>"
      have rec: "retry_loop E (logged fn) pol attempt lastError w
                 = retry_loop E (logged fn) pol (attempt + 1) (Some err) (sleep d w2)"
        using f err True rd le Some by (simp add: unfold d_def)
      from R[of "attempt + 1" "Some err" "sleep d w2"] m1 m2
      show ?thesis unfolding rec by auto
    qed
  qed
qed

lemma retry_loop_sleeps:
  assumes fnp: "\<And>w. sleeps (trace (snd (fn w))) = sleeps (trace w)"
  shows "retry_loop E (logged fn) pol attempt lastError w = (r, w') \<Longrightarrow>
   \<forall>h. 0 \<le> Math_random E h \<and> Math_random E h < 1 \<Longrightarrow> 0 < jitterMs pol \<Longrightarrow>
   \<exists>rs ds. world.more w' = world.more w @ rs
        \<and> sleeps (trace w') = sleeps (trace w) @ ds
        \<and> length ds = length rs - 1
        \<and> (\<forall>k<length ds. \<exists>j::int. ds ! k = baseDelayMs pol * factor pol ^ (attempt + k) + of_int j
               \<and> 0 \<le> j \<and> of_int j < jitterMs pol)"
proof (induction E "logged fn" pol attempt lastError w rule: retry_loop.induct)
  case (1 E pol attempt lastError w)
  note run = "1.prems"(1) and rnd = "1.prems"(2) and jit = "1.prems"(3)
  note unfold = retry_loop.simps[of E "logged fn" pol attempt]
  show ?case
  proof (cases "int attempt \<le> retries pol")
    case False
    with run have "w' = w" by (simp add: unfold)
    then show ?thesis by (intro exI[of _ "[]"]) simp
  next
    case le: True
    obtain r1 w1 where f: "logged fn w = (r1, w1)" by (cases "logged fn w")
    have m1: "world.more w1 = world.more w @ [r1]" using f by (rule logged_more)
    have s1: "sleeps (trace w1) = sleeps (trace w)"
      using f fnp[of w] by (auto simp: logged_def split: prod.splits)
    have stop: "\<exists>rs ds. world.more v = world.more w @ rs
        \<and> sleeps (trace v) = sleeps (trace w) @ ds \<and> length ds = length rs - 1
        \<and> (\<forall>k<length ds. \<exists>j::int. ds ! k = baseDelayMs pol * factor pol ^ (attempt + k) + of_int j
               \<and> 0 \<le> j \<and> of_int j < jitterMs pol)"
      if "world.more v = world.more w1" "sleeps (trace v) = sleeps (trace w1)" for v
      using m1 s1 that by (intro exI[of _ "[r1]"] exI[of _ "[]"]) simp
    show ?thesis
    proof (cases r1)
      case (Inr v)
      with run le f have "w' = w1" by (simp add: unfold)
      with stop[of w1] show ?thesis by simp
    next
      case (Inl err)
      show ?thesis
      proof (cases "int attempt = retries pol")
        case True
        with run le f Inl have "w' = w1" by (simp add: unfold)
        with stop[of w1] show ?thesis by simp
      next
        case False
        obtain x w2 where rd: "random E w1 = (x, w2)" by (cases "random E w1")
        have m2: "world.more w2 = world.more w1" using more_random[of E w1] rd by simp
        have s2: "sleeps (trace w2) = sleeps (trace w1)"
          using rd by (auto simp: random_def Let_def)
        show ?thesis
        proof (cases "message err")
          case None
          with run le f Inl False rd have "w' = w2" by (simp add: unfold)
          with stop[of w2] m2 s2 show ?thesis by simp
        next
          case (Some m)
          define d where "d = baseDelayMs pol * factor pol ^ attempt + of_int \<lfloor>x * jitterMs pol\<rfloor>"
          have rec: "retry_loop E (logged fn) pol (attempt + 1) (Some err) (sleep d w2) = (r, w')"
            using run le f Inl False rd Some by (simp add: d_def unfold)
          have x: "0 \<le> x \<and> x < 1" using rd rnd by (auto simp: random_def Let_def)
          have m3: "world.more (sleep d w2) = world.more w1" using m2 by simp
          have s3: "sleeps (trace (sleep d w2)) = sleeps (trace w1) @ [d]"
            using s2 by (simp add: sleep_def)
          from "1.hyps"[OF le f[symmetric] Inl False rd[symmetric] d_def Some rec rnd jit]
          obtain rs ds where rs: "world.more w' = world.more (sleep d w2) @ rs"
            "sleeps (trace w') = sleeps (trace (sleep d w2)) @ ds" "length ds = length rs - 1"
            "\<forall>k<length ds. \<exists>j::int. ds ! k = baseDelayMs pol * factor pol ^ (attempt + 1 + k) + of_int j
                 \<and> 0 \<le> j \<and> of_int j < jitterMs pol"
            by blast
          have "int (attempt + 1) \<le> retries pol" using False le by simp
          from retry_loop_invokes[OF this, of E fn "Some err" "sleep d w2"] rec rs(1)
          have "rs \<noteq> []" by auto
          then have len: "length (d # ds) = length (r1 # rs) - 1" using rs(3) by (cases rs) simp_all
          have form: "\<exists>j::int. (d # ds) ! k = baseDelayMs pol * factor pol ^ (attempt + k) + of_int j
                 \<and> 0 \<le> j \<and> of_int j < jitterMs pol" if "k < length (d # ds)" for k
          proof (cases k)
            case 0
            then show ?thesis using jitter_bounds[of x "jitterMs pol"] x jit
              by (intro exI[of _ "\<lfloor>x * jitterMs pol\<rfloor>"]) (simp add: d_def)
          next
            case (Suc k')
            then show ?thesis using rs(4) that by simp
          qed
          show ?thesis
            using rs(1,2) m1 m3 s1 s3 len form
            by (intro exI[of _ "r1 # rs"] exI[of _ "d # ds"]) simp
        qed
      qed
    qed
  qed
qed

lemma sleeps_getSonarQubeProject:
  "sleeps (trace (snd (getSonarQubeProject E key w))) = sleeps (trace w)"
  by (simp add: getSonarQubeProject_def Let_def split: sum.splits option.splits)

text \<open>
  C10. In a run of \<open>retryOperation\<close> on an operation that does not sleep itself, with
  \<^verbatim>\<open>Math.random()\<close> in \<open>[0, 1)\<close> and \<open>jitterMs > 0\<close>, there is one sleep after every
  invocation but the last (these are the failed attempts before the final one), and
  the \<open>k\<close>-th of them, counted from zero, lasts
  \<open>baseDelayMs * factor ^ k + j\<close> for an integer \<open>j\<close> with \<open>0 \<le> j < jitterMs\<close>.
  Numbers are exact here; the gateway computes in double precision.
\<close>

theorem backoff_delay:
  assumes "\<forall>h. 0 \<le> Math_random E h \<and> Math_random E h < 1"
    and "0 < jitterMs pol"
    and "\<forall>w. sleeps (trace (snd (fn w))) = sleeps (trace w)"
    and "retryOperation E (logged fn) pol w = (r, w')"
  shows "\<exists>rs ds. world.more w' = world.more w @ rs
        \<and> sleeps (trace w') = sleeps (trace w) @ ds
        \<and> length ds = length rs - 1
        \<and> (\<forall>k<length ds. \<exists>j::int. ds ! k = baseDelayMs pol * factor pol ^ k + of_int j
               \<and> 0 \<le> j \<and> of_int j < jitterMs pol)"
  using retry_loop_sleeps[of fn E pol 0 None w r w'] assms
  by (simp add: retryOperation_def)

theorem backoff_delay_witness:
  "(\<forall>h. 0 \<le> Math_random sonar_down_env h \<and> Math_random sonar_down_env h < 1)
   \<and> 0 < jitterMs two_retries
   \<and> (\<forall>w::(failure + sonar_data) list world_scheme.
         sleeps (trace (snd (getSonarQubeProject sonar_down_env ''p'' w))) = sleeps (trace w))
   \<and> (\<exists>r w'. retryOperation sonar_down_env (logged (getSonarQubeProject sonar_down_env ''p''))
            two_retries logging_world = (r, w')
        \<and> sleeps (trace w') = [550, 1050]
        \<and> (\<exists>rs ds. world.more w' = world.more logging_world @ rs
        \<and> sleeps (trace w') = sleeps (trace logging_world) @ ds
        \<and> length ds = length rs - 1
        \<and> (\<forall>k<length ds. \<exists>j::int. ds ! k = baseDelayMs two_retries * factor two_retries ^ k + of_int j
               \<and> 0 \<le> j \<and> of_int j < jitterMs two_retries)))"
proof -
  have h1: "\<forall>h. 0 \<le> Math_random sonar_down_env h \<and> Math_random sonar_down_env h < 1"
    by (simp add: scenario_defs)
  have h2: "0 < jitterMs two_retries" by (simp add: scenario_defs)
  have h3: "\<forall>w::(failure + sonar_data) list world_scheme.
         sleeps (trace (snd (getSonarQubeProject sonar_down_env ''p'' w))) = sleeps (trace w)"
    by (simp add: sleeps_getSonarQubeProject)
  obtain r w' where run:
    "retryOperation sonar_down_env (logged (getSonarQubeProject sonar_down_env ''p''))
       two_retries logging_world = (r, w')"
    by (cases "retryOperation sonar_down_env (logged (getSonarQubeProject sonar_down_env ''p''))
       two_retries logging_world")
  have ev: "sleeps (trace w') = [550, 1050]"
    using run 
    by (auto simp add: scenario_defs retryOperation_def retry_loop.simps getSonarQubeProject_def
        logged_def emit_def random_def sleep_def Let_def)
  from backoff_delay[OF h1 h2 h3 run] h1 h2 h3 run ev show ?thesis by blast
qed

section \<open>Properties of the token cache\<close>

lemma cache_emit [simp]: "cache (emit e w) = cache w"
  by (simp add: cache_def)

lemma cache_now [simp]: "cache (snd (now E w)) = cache w"
  by (simp add: now_def Let_def)

lemma cache_random [simp]: "cache (snd (random E w)) = cache w"
  by (simp add: random_def Let_def)

lemma cache_sleep [simp]: "cache (sleep d w) = cache w"
  by (simp add: sleep_def)

lemma cache_getSonarQubeProject [simp]: "cache (snd (getSonarQubeProject E key w)) = cache w"
  by (simp add: getSonarQubeProject_def Let_def split: sum.splits option.splits)

lemma cache_getTransport [simp]: "cache (snd (getTransport E w)) = cache w"
  by (simp add: getTransport_def Let_def split: option.splits)

lemma cache_email_try [simp]: "cache (snd (email_try E inc key pname w)) = cache w"
proof -
  obtain r w1 where g: "getTransport E w = (r, w1)" by (cases "getTransport E w")
  have "cache w1 = cache w" using cache_getTransport[of E w] g by simp
  then show ?thesis using g
    by (cases r) (simp_all add: email_try_def now_def Let_def split: option.splits)
qed

lemma cache_sendIncidentEmail [simp]: "cache (snd (sendIncidentEmail E inc key pname w)) = cache w"
proof -
  obtain r w1 where g: "email_try E inc key pname w = (r, w1)" by (cases "email_try E inc key pname w")
  have "cache w1 = cache w" using cache_email_try[of E inc key pname w] g by simp
  then show ?thesis using g
    by (cases r) (simp_all add: sendIncidentEmail_def split: option.splits)
qed

lemma cache_retryOperation:
  assumes "\<And>w. cache (snd (fn w)) = cache w"
  shows "cache (snd (retryOperation E fn pol w)) = cache w"
  unfolding retryOperation_def
  by (rule retry_loop_rel[where R = "\<lambda>a b. cache b = cache a"]) (simp_all add: assms)

lemma cached_valid_cases:
  "cached_valid E w = (x, w0) \<Longrightarrow>
     (x = None \<and> (w0 = w \<or> w0 = emit EvNow w))
   \<or> (\<exists>tok expiry. x = Some tok \<and> w0 = emit EvNow w \<and> cachedToken w = Some tok \<and> tok \<noteq> []
         \<and> tokenExpiry w = Some expiry \<and> int (Date_now E (trace w @ [EvNow])) < expiry - 300000)"
  by (auto simp: cached_valid_def now_def Let_def truthy_str_def truthy_num_def
           split: if_splits option.splits)

lemma getServiceNowToken_cases:
  assumes "getServiceNowToken E w = (r, w')"
  shows "(\<exists>tok. r = Inr tok \<and> cachedToken w = Some tok \<and> cache w' = cache w
              \<and> trace w' = trace w @ [EvNow])
       \<or> (\<exists>h data tok. trace w' = h @ [EvOAuth, EvNow] \<and> (h = trace w \<or> h = trace w @ [EvNow])
              \<and> oauth_post E (h @ [EvOAuth]) = Inr data
              \<and> access_token data = Some tok \<and> tok \<noteq> [] \<and> r = Inr tok
              \<and> cachedToken w' = Some tok
              \<and> tokenExpiry w' = Some (int (Date_now E (trace w')) + expiresIn data * 1000))
       \<or> (\<exists>h e. trace w' = h @ [EvOAuth] \<and> (h = trace w \<or> h = trace w @ [EvNow])
              \<and> exchange_failed E (h @ [EvOAuth]) \<and> r = Inl e \<and> cache w' = cache w)"
proof -
  obtain x w0 where cv: "cached_valid E w = (x, w0)" by (cases "cached_valid E w")
  from cached_valid_cases[OF cv] consider
      (hit) tok where "x = Some tok" "w0 = emit EvNow w" "cachedToken w = Some tok"
    | (miss) "x = None" "w0 = w \<or> w0 = emit EvNow w"
    by blast
  then show ?thesis
  proof cases
    case (hit tok)
    with assms cv have "r = Inr tok" "w' = emit EvNow w" by (auto simp: getServiceNowToken_def)
    with \<open>cachedToken w = Some tok\<close> show ?thesis by simp
  next
    case miss
    note x = miss(1) and w0 = miss(2)
    from w0 have c0: "cache w0 = cache w" and g0: "trace w0 = trace w \<or> trace w0 = trace w @ [EvNow]"
      by auto
    show ?thesis
    proof (cases "oauth_post E (trace w0 @ [EvOAuth])")
      case (Inl err)
      with assms cv x c0 g0 have "trace w' = trace w0 @ [EvOAuth]" "exchange_failed E (trace w0 @ [EvOAuth])"
        "isl r" "cache w' = cache w"
        by (auto simp: getServiceNowToken_def Let_def exchange_failed_def)
      with g0 show ?thesis by (cases r) auto
    next
      case (Inr data)
      show ?thesis
      proof (cases "truthy_str (access_token data)")
        case False
        with Inr assms cv x c0 have "trace w' = trace w0 @ [EvOAuth]" "exchange_failed E (trace w0 @ [EvOAuth])"
        "isl r" "cache w' = cache w"
          by (auto simp: getServiceNowToken_def Let_def exchange_failed_def truthy_str_def split: option.splits)
        with g0 show ?thesis by (cases r) auto
      next
        case True
        then obtain tok where tok: "access_token data = Some tok" "tok \<noteq> []"
          by (auto simp: truthy_str_def split: option.splits)
        with Inr assms cv x have "trace w' = trace w0 @ [EvOAuth, EvNow]" "r = Inr tok"
          "cachedToken w' = Some tok"
          "tokenExpiry w' = Some (int (Date_now E (trace w')) + expiresIn data * 1000)"
          by (auto simp: getServiceNowToken_def Let_def now_def)
        with g0 Inr tok show ?thesis by blast
      qed
    qed
  qed
qed

lemma createServiceNowIncident_cases:
  assumes "createServiceNowIncident E token p w = (r, w')"
  shows "trace w' = trace w @ [EvIncident token p] \<and>
         (if answered_401 E (trace w @ [EvIncident token p])
          then isl r \<and> cache w' = (None, None)
          else cache w' = cache w)"
  using assms
  by (cases "incident_post E (trace w @ [EvIncident token p])")
     (auto simp: createServiceNowIncident_def incident_try_def answered_401_def Let_def cache_def
           split: option.splits if_splits)


lemmas cache_scenario_defs = unauthorized_def unauthorized_env_def oauth_down_env_def warm_world_def
  expired_world_def some_payload_def

text \<open>
  C4. When a token is cached and the clock reading \<open>t\<close> of the call is earlier than the
  stored expiry minus 300000 ms, \<open>getServiceNowToken\<close> returns the cached token; the
  only event of the call is the clock reading, so the OAuth exchange is not invoked, and
  the cache is as before.
\<close>

theorem cached_token_reused:
  assumes "cachedToken w = Some tok" and "tok \<noteq> []" and "tokenExpiry w = Some expiry"
    and "int (Date_now E (trace w @ [EvNow])) < expiry - 300000"
  shows "getServiceNowToken E w = (Inr tok, w\<lparr>trace := trace w @ [EvNow]\<rparr>)"
  using assms
  by (simp add: getServiceNowToken_def cached_valid_def now_def emit_def Let_def
      truthy_str_def truthy_num_def)

theorem cached_token_reused_witness:
  "cachedToken warm_world = Some ''token-0'' \<and> ''token-0'' \<noteq> [] 
   \<and> tokenExpiry warm_world = Some 3601000
   \<and> int (Date_now calm_env (trace warm_world @ [EvNow])) < 3601000 - 300000
   \<and> getServiceNowToken calm_env warm_world
       = (Inr ''token-0'', \<lparr>cachedToken = Some ''token-0'', tokenExpiry = Some 3601000, trace = [EvNow]\<rparr>)"
proof -
  have h: "cachedToken warm_world = Some ''token-0''" "''token-0'' \<noteq> []"
    "tokenExpiry warm_world = Some 3601000"
    "int (Date_now calm_env (trace warm_world @ [EvNow])) < 3601000 - 300000"
    by (simp_all add: scenario_defs cache_scenario_defs)
  from cached_token_reused[OF h] h show ?thesis by (simp add: warm_world_def)
qed

text \<open>
  C5. A ticket creation answered with 401 clears both cache variables, whatever the
  stored expiry was; as long as the cache stays so, the next call of
  \<open>getServiceNowToken\<close> invokes the OAuth exchange, and when the exchange answers
  with a token, that fresh token is returned and cached.
\<close>

theorem invalidation_forces_refresh:
  assumes "answered_401 E (trace w @ [EvIncident token payload])"
    and "createServiceNowIncident E token payload w = (r1, w1)"
    and "cachedToken w2 = cachedToken w1"
    and "getServiceNowToken E w2 = (r2, w3)"
  shows "cachedToken w1 = None \<and> tokenExpiry w1 = None
       \<and> (\<exists>d. trace w3 = trace w2 @ EvOAuth # d)
       \<and> (\<forall>data tok. oauth_post E (trace w2 @ [EvOAuth]) = Inr data
              \<and> access_token data = Some tok \<and> tok \<noteq> []
            \<longrightarrow> r2 = Inr tok \<and> cachedToken w3 = Some tok)"
proof -
  from createServiceNowIncident_cases[OF assms(2)] assms(1)
  have c1: "cachedToken w1 = None" "tokenExpiry w1 = None" by (simp_all add: cache_def)
  with assms(3) have cv: "cached_valid E w2 = (None, w2)"
    by (simp add: cached_valid_def truthy_str_def)
  have "\<exists>d. trace w3 = trace w2 @ EvOAuth # d"
    using assms(4) cv
    by (auto simp: getServiceNowToken_def Let_def now_def split: sum.splits option.splits if_splits)
  moreover have "r2 = Inr tok \<and> cachedToken w3 = Some tok"
    if "oauth_post E (trace w2 @ [EvOAuth]) = Inr data" "access_token data = Some tok" "tok \<noteq> []"
    for data tok
    using assms(4) cv that by (auto simp: getServiceNowToken_def Let_def now_def)
  ultimately show ?thesis using c1 by blast
qed

theorem invalidation_forces_refresh_witness:
  "answered_401 unauthorized_env (trace warm_world @ [EvIncident ''token-0'' some_payload])
   \<and> (\<exists>e w1 w3. createServiceNowIncident unauthorized_env ''token-0'' some_payload warm_world
                   = (Inl e, w1)
        \<and> cachedToken w1 = None \<and> tokenExpiry w1 = None
        \<and> getServiceNowToken unauthorized_env w1 = (Inr ''token-1'', w3)
        \<and> trace w3 = trace w1 @ [EvOAuth, EvNow]
        \<and> cachedToken w3 = Some ''token-1'')"
proof -
  have h1: "answered_401 unauthorized_env (trace warm_world @ [EvIncident ''token-0'' some_payload])"
    by (simp add: answered_401_def scenario_defs cache_scenario_defs)
  obtain e w1 where h2: "createServiceNowIncident unauthorized_env ''token-0'' some_payload warm_world
                   = (Inl e, w1)"
    by (simp add: createServiceNowIncident_def incident_try_def Let_def scenario_defs cache_scenario_defs)
  obtain r2 w3 where h4: "getServiceNowToken unauthorized_env w1 = (r2, w3)"
    by (cases "getServiceNowToken unauthorized_env w1")
  from invalidation_forces_refresh[OF h1 h2 refl h4]
  have c: "cachedToken w1 = None" "tokenExpiry w1 = None" 
     and d: "\<exists>d. trace w3 = trace w1 @ EvOAuth # d" 
     and f: "\<And>data tok. oauth_post unauthorized_env (trace w1 @ [EvOAuth]) = Inr data
              \<Longrightarrow> access_token data = Some tok \<Longrightarrow> tok \<noteq> []
            \<Longrightarrow> r2 = Inr tok \<and> cachedToken w3 = Some tok"
    by blast+
  have "oauth_post unauthorized_env (trace w1 @ [EvOAuth]) 
        = Inr \<lparr>access_token = Some ''token-1'', expires_in = Some 3600\<rparr>"
    by (simp add: scenario_defs cache_scenario_defs)
  from f[OF this] have r2: "r2 = Inr ''token-1''" "cachedToken w3 = Some ''token-1''" by simp_all
  have "trace w3 = trace w1 @ [EvOAuth, EvNow]"
    using h4 c by (auto simp: getServiceNowToken_def cached_valid_def truthy_str_def Let_def now_def
        scenario_defs cache_scenario_defs)
  with h1 h2 h4 c r2 show ?thesis by blast
qed


text \<open>
  C6. What every effectful operation of the gateway does to the token cache.
  \<open>getServiceNowToken\<close> either returns the cached token and leaves the cache, or its
  exchange succeeded and it sets both variables and returns the new token, or its
  exchange failed and it throws, leaving both variables as they were (the cached token
  is not returned). \<open>createServiceNowIncident\<close> clears both variables when answered
  with 401 and leaves them otherwise. The project lookup, the notification, the clock,
  the random generator, the timer and the retry wrapper around an operation that leaves
  the cache leave it too.
\<close>

theorem token_cache_frame:
  "(\<forall>r w'. getServiceNowToken E w = (r, w') \<longrightarrow>
       (\<exists>tok. r = Inr tok \<and> cachedToken w = Some tok \<and> cache w' = cache w
              \<and> trace w' = trace w @ [EvNow])
     \<or> (\<exists>h data tok. trace w' = h @ [EvOAuth, EvNow] \<and> (h = trace w \<or> h = trace w @ [EvNow])
              \<and> oauth_post E (h @ [EvOAuth]) = Inr data
              \<and> access_token data = Some tok \<and> tok \<noteq> [] \<and> r = Inr tok
              \<and> cachedToken w' = Some tok
              \<and> tokenExpiry w' = Some (int (Date_now E (trace w')) + expiresIn data * 1000))
     \<or> (\<exists>h e. trace w' = h @ [EvOAuth] \<and> (h = trace w \<or> h = trace w @ [EvNow])
              \<and> exchange_failed E (h @ [EvOAuth]) \<and> r = Inl e \<and> cache w' = cache w))
   \<and> (\<forall>r w'. createServiceNowIncident E token payload w = (r, w') \<longrightarrow>
         (if answered_401 E (trace w @ [EvIncident token payload])
          then isl r \<and> cache w' = (None, None)
          else cache w' = cache w))
   \<and> cache (snd (getSonarQubeProject E key w)) = cache w
   \<and> cache (snd (sendIncidentEmail E inc key pname w)) = cache w
   \<and> cache (snd (now E w)) = cache w
   \<and> cache (snd (random E w)) = cache w
   \<and> cache (sleep ms w) = cache w
   \<and> ((\<forall>v. cache (snd (fn v)) = cache v) \<longrightarrow> cache (snd (retryOperation E fn pol w)) = cache w)"
proof (intro conjI allI impI)
  fix r w' assume "getServiceNowToken E w = (r, w')"
  then show "(\<exists>tok. r = Inr tok \<and> cachedToken w = Some tok \<and> cache w' = cache w
              \<and> trace w' = trace w @ [EvNow])
     \<or> (\<exists>h data tok. trace w' = h @ [EvOAuth, EvNow] \<and> (h = trace w \<or> h = trace w @ [EvNow])
              \<and> oauth_post E (h @ [EvOAuth]) = Inr data
              \<and> access_token data = Some tok \<and> tok \<noteq> [] \<and> r = Inr tok
              \<and> cachedToken w' = Some tok
              \<and> tokenExpiry w' = Some (int (Date_now E (trace w')) + expiresIn data * 1000))
     \<or> (\<exists>h e. trace w' = h @ [EvOAuth] \<and> (h = trace w \<or> h = trace w @ [EvNow])
              \<and> exchange_failed E (h @ [EvOAuth]) \<and> r = Inl e \<and> cache w' = cache w)"
    by (rule getServiceNowToken_cases)
next
  fix r w' assume "createServiceNowIncident E token payload w = (r, w')"
  from createServiceNowIncident_cases[OF this]
  show "if answered_401 E (trace w @ [EvIncident token payload])
          then isl r \<and> cache w' = (None, None)
          else cache w' = cache w" by simp
next
  assume "\<forall>v. cache (snd (fn v)) = cache v"
  then show "cache (snd (retryOperation E fn pol w)) = cache w"
    by (simp add: cache_retryOperation)
qed simp_all

theorem token_cache_frame_witness:
  "\<exists>e w'. getServiceNowToken oauth_down_env expired_world = (Inl e, w')
         \<and> trace w' = [EvNow, EvOAuth]
         \<and> exchange_failed oauth_down_env [EvNow, EvOAuth]
         \<and> cache w' = cache expired_world
         \<and> cache w' = (Some ''token-0'', Some 200000)"
proof -
  obtain r w' where run: "getServiceNowToken oauth_down_env expired_world = (r, w')"
    by (cases "getServiceNowToken oauth_down_env expired_world")
  have tr: "trace w' = [EvNow, EvOAuth]"
    using run
    by (auto simp: getServiceNowToken_def cached_valid_def truthy_str_def truthy_num_def Let_def
        now_def scenario_defs cache_scenario_defs)
  from token_cache_frame[of oauth_down_env expired_world] run
  have "(\<exists>tok. r = Inr tok \<and> cachedToken expired_world = Some tok \<and> cache w' = cache expired_world
              \<and> trace w' = trace expired_world @ [EvNow])
     \<or> (\<exists>h data tok. trace w' = h @ [EvOAuth, EvNow]
              \<and> (h = trace expired_world \<or> h = trace expired_world @ [EvNow])
              \<and> oauth_post oauth_down_env (h @ [EvOAuth]) = Inr data
              \<and> access_token data = Some tok \<and> tok \<noteq> [] \<and> r = Inr tok
              \<and> cachedToken w' = Some tok
              \<and> tokenExpiry w' = Some (int (Date_now oauth_down_env (trace w')) + expiresIn data * 1000))
     \<or> (\<exists>h e. trace w' = h @ [EvOAuth]
              \<and> (h = trace expired_world \<or> h = trace expired_world @ [EvNow])
              \<and> exchange_failed oauth_down_env (h @ [EvOAuth]) \<and> r = Inl e
              \<and> cache w' = cache expired_world)"
    by blast
  with tr have "\<exists>e. r = Inl e \<and> exchange_failed oauth_down_env [EvNow, EvOAuth]
       \<and> cache w' = cache expired_world"
    by (auto simp: expired_world_def)
  moreover have "cache expired_world = (Some ''token-0'', Some 200000)"
    by (simp add: cache_def expired_world_def)
  ultimately show ?thesis using run tr by auto
qed

section \<open>Properties of the batch\<close>

lemma pair_fstI: "fst x = a \<Longrightarrow> \<exists>b. x = (a, b)"
  by (cases x) simp

subsection \<open>No operation throws undefined\<close>

lemma message_getSonarQubeProject:
  "getSonarQubeProject E key w = (Inl e, w') \<Longrightarrow> message e \<noteq> None"
  by (auto simp: getSonarQubeProject_def Let_def split: sum.splits option.splits if_splits)

lemma message_oauth_catch: "message e \<noteq> None \<Longrightarrow> message (oauth_catch e) \<noteq> None"
  by (cases e rule: oauth_catch.cases) (auto split: option.splits)

lemma message_incident_catch: "message e \<noteq> None \<Longrightarrow> message (incident_catch e) \<noteq> None"
  by (cases e rule: incident_catch.cases) (auto split: option.splits)

lemma message_getServiceNowToken:
  "getServiceNowToken E w = (Inl e, w') \<Longrightarrow> message e \<noteq> None"
  by (cases "cached_valid E w")
     (auto simp: getServiceNowToken_def Let_def now_def 
           split: sum.splits option.splits if_splits intro!: message_oauth_catch)

lemma message_createServiceNowIncident:
  "createServiceNowIncident E token p w = (Inl e, w') \<Longrightarrow> message e \<noteq> None"
  by (auto simp: createServiceNowIncident_def incident_try_def Let_def
           split: sum.splits option.splits if_splits prod.splits intro!: message_incident_catch)

lemma message_retryOperation:
  assumes fn: "\<And>w e w'. fn w = (Inl e, w') \<Longrightarrow> message e \<noteq> None"
    and nonneg: "0 \<le> retries pol"
    and run: "retryOperation E fn pol w = (Inl e, w')"
  shows "message e \<noteq> None"
proof -
  have "\<exists>w0. True \<and> fn w0 = (Inl e, w')"
    by (rule retryOperation_last[where R = "\<lambda>a b. True" and E = E and pol = pol and w = w])
       (simp_all add: run nonneg fn)
  then show ?thesis using fn by blast
qed

subsection \<open>The notification\<close>

lemma message_email_try:
  "email_try E inc key pname w = (Inl e, w') \<Longrightarrow> message e \<noteq> None"
  by (auto simp: email_try_def getTransport_def now_def Let_def
           split: sum.splits option.splits if_splits prod.splits)

lemma sendIncidentEmail_returns: "fst (sendIncidentEmail E inc key pname w) = Inr ()"
proof -
  obtain r w1 where t: "email_try E inc key pname w = (r, w1)"
    by (cases "email_try E inc key pname w")
  show ?thesis
  proof (cases r)
    case (Inl e)
    with t message_email_try[of E inc key pname w e w1] show ?thesis
      by (auto simp: sendIncidentEmail_def)
  next
    case (Inr u)
    with t show ?thesis by (simp add: sendIncidentEmail_def)
  qed
qed


subsection \<open>One key of the batch\<close>

lemma try_key_cases:
  assumes "try_key E token key results w = (r, w')"
  shows "(\<exists>e. r = Inl e \<and> message e \<noteq> None)
       \<or> (\<exists>out. r = Inr (results @ [out]) \<and> projectKey out = key
               \<and> (status out = ''not_found'' \<or> status out = ''incident_created''))"
proof -
  let ?p1 = "default_policy\<lparr>retries := 2, label := ''sonarqube-'' @ key\<rparr>"
  let ?p2 = "default_policy\<lparr>retries := 3, label := ''incident-'' @ key\<rparr>"
  obtain r1 w1 where s1: "retryOperation E (getSonarQubeProject E key) ?p1 w = (r1, w1)"
    by (cases "retryOperation E (getSonarQubeProject E key) ?p1 w")
  show ?thesis
  proof (cases r1)
    case (Inl e1)
    with s1 assms have "r = Inl e1" by (simp add: try_key_def)
    moreover have "message e1 \<noteq> None"
    proof (rule message_retryOperation[where fn = "getSonarQubeProject E key" and pol = ?p1
            and E = E and w = w and w' = w1])
      show "0 \<le> retries ?p1" by (simp add: default_policy_def)
      show "retryOperation E (getSonarQubeProject E key) ?p1 w = (Inl e1, w1)"
        using s1 Inl by simp
    qed (rule message_getSonarQubeProject)
    ultimately show ?thesis by simp
  next
    case (Inr projectData)
    show ?thesis
    proof (cases "first_component projectData")
      case None
      with s1 Inr assms show ?thesis by (auto simp: try_key_def)
    next
      case (Some component)
      let ?fn = "createServiceNowIncident E token (batch_payload component key)"
      obtain r2 w2 where s2: "retryOperation E ?fn ?p2 w1 = (r2, w2)"
        by (cases "retryOperation E ?fn ?p2 w1")
      show ?thesis
      proof (cases r2)
        case (Inl e2)
        with s1 Inr Some s2 assms have "r = Inl e2" by (simp add: try_key_def Let_def)
        moreover have "message e2 \<noteq> None"
        proof (rule message_retryOperation[where fn = ?fn and pol = ?p2
                and E = E and w = w1 and w' = w2])
          show "0 \<le> retries ?p2" by (simp add: default_policy_def)
          show "retryOperation E ?fn ?p2 w1 = (Inl e2, w2)" using s2 Inl by simp
        qed (rule message_createServiceNowIncident)
        ultimately show ?thesis by simp
      next
        case inc: (Inr inc)
        obtain r3 w3 where s3: "sendIncidentEmail E inc key (name component) w2 = (r3, w3)"
          by (cases "sendIncidentEmail E inc key (name component) w2")
        with sendIncidentEmail_returns[of E inc key "name component" w2] have "r3 = Inr ()" by simp
        with s1 Inr Some s2 inc s3 assms show ?thesis by (auto simp: try_key_def Let_def)
      qed
    qed
  qed
qed

lemma process_key_cases:
  assumes "process_key E token key results w = (r, w')"
  shows "\<exists>out. r = Inr (results @ [out]) \<and> projectKey out = key
            \<and> (isl (fst (try_key E token key results w)) \<longrightarrow> status out = ''error'')"
proof -
  obtain r0 w0 where t: "try_key E token key results w = (r0, w0)"
    by (cases "try_key E token key results w")
  from try_key_cases[OF t] assms t show ?thesis
    by (auto simp: process_key_def)
qed

lemma try_key_results:
  "try_key E token key results w =
     (case try_key E token key [] w of
        (Inl e, w') \<Rightarrow> (Inl e, w')
      | (Inr rs, w') \<Rightarrow> (Inr (results @ rs), w'))"
  by (simp add: try_key_def Let_def split: prod.splits sum.splits option.splits)

lemma process_key_results:
  "process_key E token key results w =
     (case process_key E token key [] w of
        (Inl e, w') \<Rightarrow> (Inl e, w')
      | (Inr rs, w') \<Rightarrow> (Inr (results @ rs), w'))"
  by (simp add: process_key_def try_key_results[of E token key results w]
           split: prod.splits sum.splits option.splits)

lemma batch_loop_results:
  "batch_loop E token keys results w =
     (case batch_loop E token keys [] w of
        (Inl e, w') \<Rightarrow> (Inl e, w')
      | (Inr rs, w') \<Rightarrow> (Inr (results @ rs), w'))"
proof (induction keys arbitrary: results w)
  case Nil
  show ?case by simp
next
  case (Cons key keys)
  obtain r w1 where p: "process_key E token key [] w = (r, w1)"
    by (cases "process_key E token key [] w")
  from process_key_cases[OF p] obtain out where out: "r = Inr [out]" by auto
  have p': "process_key E token key results w = (Inr (results @ [out]), w1)"
    using p out by (simp add: process_key_results[of E token key results w])
  show ?case
    using p p' out Cons.IH[of "results @ [out]" w1] Cons.IH[of "[out]" w1]
    by (simp split: prod.splits sum.splits)
qed

lemma batch_loop_total:
  "\<exists>rs w'. batch_loop E token keys [] w = (Inr rs, w') \<and> map projectKey rs = keys"
proof (induction keys arbitrary: w)
  case Nil
  show ?case by simp
next
  case (Cons key keys)
  obtain r w1 where p: "process_key E token key [] w = (r, w1)"
    by (cases "process_key E token key [] w")
  from process_key_cases[OF p] obtain out where out: "r = Inr [out]" "projectKey out = key" by auto
  from Cons.IH[of w1] obtain rs w' where rs: "batch_loop E token keys [] w1 = (Inr rs, w')"
    "map projectKey rs = keys" by blast
  have "batch_loop E token (key # keys) [] w = (Inr ([out] @ rs), w')"
    using p out rs by (simp add: batch_loop_results[of E token keys "[out]" w1])
  with out rs show ?case by auto
qed

lemma batch_loop_append:
  assumes "batch_loop E token pre [] w = (Inr rs1, w1)"
    and "batch_loop E token post [] w1 = (Inr rs2, w2)"
  shows "batch_loop E token (pre @ post) [] w = (Inr (rs1 @ rs2), w2)"
  using assms
proof (induction pre arbitrary: w rs1)
  case Nil
  then show ?case by simp
next
  case (Cons key pre)
  obtain r w0 where p: "process_key E token key [] w = (r, w0)"
    by (cases "process_key E token key [] w")
  from process_key_cases[OF p] obtain out where out: "r = Inr [out]" by auto
  obtain rs w' where rs: "batch_loop E token pre [] w0 = (Inr rs, w')"
    using batch_loop_total[of E token pre w0] by blast
  have "batch_loop E token (key # pre) [] w = (Inr ([out] @ rs), w')"
    using p out rs by (simp add: batch_loop_results[of E token pre "[out]" w0])
  with Cons.prems(1) have eq: "rs1 = out # rs" "w1 = w'" by simp_all
  from rs eq have "batch_loop E token pre [] w0 = (Inr rs, w1)" by simp
  from Cons.IH[OF this Cons.prems(2)]
  have "batch_loop E token (pre @ post) [] w0 = (Inr (rs @ rs2), w2)" .
  then show ?case
    using p out eq by (simp add: batch_loop_results[of E token "pre @ post" "[out]" w0])
qed


lemmas batch_scenario_defs = second_key_fails_env_def three_keys_def no_components_env_def
  mail_failing_env_def

lemmas run_defs = create_incidents_def batch_try_def process_key_def try_key_def
  sonarqube_webhook_def webhook_try_def webhook_payload_def batch_payload_def first_component_def
  retryOperation_def retry_loop.simps getSonarQubeProject_def getServiceNowToken_def
  cached_valid_def expiresIn_def createServiceNowIncident_def incident_try_def
  sendIncidentEmail_def email_try_def getTransport_def
  emit_def now_def random_def sleep_def truthy_str_def truthy_num_def render_def or_else_def
  show_int_def Let_def

text \<open>
  C3. For every list of keys the loop runs to its end and yields the list \<open>rs\<close> of
  outcome records with exactly one record per key, in the order of the keys. For every
  position of a key in the input, \<open>rs\<close> is the outcomes \<open>rs1\<close> of the keys before it
  (what the loop gives on those keys alone), then the outcome \<open>out\<close> of the key itself
  (what one iteration gives from the state the earlier keys left), then the outcomes
  \<open>rs2\<close> of the keys after it (what the loop gives on them from the state the key
  left). When the \<^verbatim>\<open>try\<close> block of the key throws, \<open>out\<close> is a record of that key
  with status \<open>error\<close>, and the loop goes on all the same. The response of the handler
  to an accepted request (1 to 50 keys) whose token acquisition succeeded carries
  exactly \<open>rs\<close>.
\<close>

theorem batch_order_and_isolation:
  "\<exists>rs w'. batch_loop E token keys [] w0 = (Inr rs, w')
       \<and> map projectKey rs = keys
       \<and> (\<forall>pre key post. keys = pre @ key # post \<longrightarrow>
            (\<exists>rs1 out rs2 w1 w2.
                rs = rs1 @ out # rs2
              \<and> batch_loop E token pre [] w0 = (Inr rs1, w1)
              \<and> process_key E token key [] w1 = (Inr [out], w2)
              \<and> batch_loop E token post [] w2 = (Inr rs2, w')
              \<and> (isl (fst (try_key E token key [] w1))
                   \<longrightarrow> status out = ''error'' \<and> projectKey out = key)))
       \<and> (\<forall>req w. projectKeys req = Some keys \<and> keys \<noteq> [] \<and> length keys \<le> 50
              \<and> retryOperation E (getServiceNowToken E)
                   (default_policy\<lparr>retries := 3, label := ''servicenow-oauth''\<rparr>) w
                 = (Inr token, w0)
            \<longrightarrow> create_incidents E req w
                = (Some \<lparr>code = 200, json = BatchBody ''Batch processed'' rs\<rparr>, w'))"
proof -
  obtain rs w' where rs: "batch_loop E token keys [] w0 = (Inr rs, w')" "map projectKey rs = keys"
    using batch_loop_total[of E token keys w0] by blast
  have resp: "create_incidents E req w
                = (Some \<lparr>code = 200, json = BatchBody ''Batch processed'' rs\<rparr>, w')"
    if "projectKeys req = Some keys \<and> keys \<noteq> [] \<and> length keys \<le> 50
              \<and> retryOperation E (getServiceNowToken E)
                   (default_policy\<lparr>retries := 3, label := ''servicenow-oauth''\<rparr>) w
                 = (Inr token, w0)" for req w
    using that rs(1) by (simp add: create_incidents_def batch_try_def)
  have split: "\<exists>rs1 out rs2 w1 w2.
                rs = rs1 @ out # rs2
              \<and> batch_loop E token pre [] w0 = (Inr rs1, w1)
              \<and> process_key E token key [] w1 = (Inr [out], w2)
              \<and> batch_loop E token post [] w2 = (Inr rs2, w')
              \<and> (isl (fst (try_key E token key [] w1))
                   \<longrightarrow> status out = ''error'' \<and> projectKey out = key)"
    if keys: "keys = pre @ key # post" for pre key post
  proof -
    obtain rs1 w1 where pre: "batch_loop E token pre [] w0 = (Inr rs1, w1)"
      using batch_loop_total[of E token pre w0] by blast
    obtain r w2 where p: "process_key E token key [] w1 = (r, w2)"
      by (cases "process_key E token key [] w1")
    from process_key_cases[OF p] obtain out where out: "r = Inr [out]" "projectKey out = key"
      "isl (fst (try_key E token key [] w1)) \<longrightarrow> status out = ''error''" by auto
    obtain rs2 w3 where post: "batch_loop E token post [] w2 = (Inr rs2, w3)"
      using batch_loop_total[of E token post w2] by blast
    have one: "batch_loop E token (key # post) [] w1 = (Inr ([out] @ rs2), w3)"
      using p out(1) post by (simp add: batch_loop_results[of E token post "[out]" w2])
    from batch_loop_append[OF pre one] keys rs(1)
    have "rs = rs1 @ out # rs2" "w' = w3" by simp_all
    with pre p out post show ?thesis by blast
  qed
  from rs split resp show ?thesis by blast
qed

theorem batch_order_and_isolation_witness:
  "retryOperation second_key_fails_env (getServiceNowToken second_key_fails_env)
     (default_policy\<lparr>retries := 3, label := ''servicenow-oauth''\<rparr>) empty_world
   = (Inr ''token-1'',
      \<lparr>cachedToken = Some ''token-1'', tokenExpiry = Some 3601000, trace = [EvOAuth, EvNow]\<rparr>)
   \<and> isl (fst (try_key second_key_fails_env ''token-1'' ''k2'' []
        \<lparr>cachedToken = Some ''token-1'', tokenExpiry = Some 3601000,
         trace = [EvOAuth, EvNow, EvSonar ''k1'',
                  EvIncident ''token-1'' (batch_payload \<lparr>name = Some ''Project One''\<rparr> ''k1'')]\<rparr>))
   \<and> (\<exists>rs w'.
        create_incidents second_key_fails_env three_keys empty_world
          = (Some \<lparr>code = 200, json = BatchBody ''Batch processed'' rs\<rparr>, w')
      \<and> map projectKey rs = [''k1'', ''k2'', ''k3'']
      \<and> status (rs ! 1) = ''error''
      \<and> map status rs = [''incident_created'', ''error'', ''incident_created''])"
proof -
  let ?E = second_key_fails_env
  let ?W0 = "\<lparr>cachedToken = Some ''token-1'', tokenExpiry = Some 3601000, trace = [EvOAuth, EvNow]\<rparr>"
  let ?W1 = "\<lparr>cachedToken = Some ''token-1'', tokenExpiry = Some 3601000,
         trace = [EvOAuth, EvNow, EvSonar ''k1'',
                  EvIncident ''token-1'' (batch_payload \<lparr>name = Some ''Project One''\<rparr> ''k1'')]\<rparr>"
  let ?o1 = "\<lparr>projectKey = ''k1'', status = ''incident_created'',
             incident = Some \<lparr>number = Some ''INC0001'', sys_id = Some ''abc''\<rparr>, error = None\<rparr>"
  have h: "projectKeys three_keys = Some [''k1'', ''k2'', ''k3''] \<and> [''k1'', ''k2'', ''k3''] \<noteq> []
     \<and> length [''k1'', ''k2'', ''k3''] \<le> 50"
    by (simp add: three_keys_def)
  have tok: "retryOperation ?E (getServiceNowToken ?E)
           (default_policy\<lparr>retries := 3, label := ''servicenow-oauth''\<rparr>) empty_world
          = (Inr ''token-1'', ?W0)"
    by (simp add: run_defs scenario_defs batch_scenario_defs)
  have first: "batch_loop ?E ''token-1'' [''k1''] [] ?W0 = (Inr [?o1], ?W1)"
    by (simp add: run_defs scenario_defs batch_scenario_defs)
  have fails: "isl (fst (try_key ?E ''token-1'' ''k2'' [] ?W1))"
    by (simp add: run_defs scenario_defs batch_scenario_defs)
  from batch_order_and_isolation[of ?E "''token-1''" "[''k1'', ''k2'', ''k3'']" ?W0]
  obtain rs w' where
    loop: "batch_loop ?E ''token-1'' [''k1'', ''k2'', ''k3''] [] ?W0 = (Inr rs, w')"
    and keys: "map projectKey rs = [''k1'', ''k2'', ''k3'']"
    and split: "\<forall>pre key post. [''k1'', ''k2'', ''k3''] = pre @ key # post \<longrightarrow>
            (\<exists>rs1 out rs2 w1 w2.
                rs = rs1 @ out # rs2
              \<and> batch_loop ?E ''token-1'' pre [] ?W0 = (Inr rs1, w1)
              \<and> process_key ?E ''token-1'' key [] w1 = (Inr [out], w2)
              \<and> batch_loop ?E ''token-1'' post [] w2 = (Inr rs2, w')
              \<and> (isl (fst (try_key ?E ''token-1'' key [] w1))
                   \<longrightarrow> status out = ''error'' \<and> projectKey out = key))"
    and resp: "\<forall>req w. projectKeys req = Some [''k1'', ''k2'', ''k3''] \<and> [''k1'', ''k2'', ''k3''] \<noteq> []
              \<and> length [''k1'', ''k2'', ''k3''] \<le> 50
              \<and> retryOperation ?E (getServiceNowToken ?E)
                   (default_policy\<lparr>retries := 3, label := ''servicenow-oauth''\<rparr>) w
                 = (Inr ''token-1'', ?W0)
            \<longrightarrow> create_incidents ?E req w
                = (Some \<lparr>code = 200, json = BatchBody ''Batch processed'' rs\<rparr>, w')"
    by (elim exE conjE)
  from resp h tok have r: "create_incidents ?E three_keys empty_world
                = (Some \<lparr>code = 200, json = BatchBody ''Batch processed'' rs\<rparr>, w')"
    by (elim allE impE) (intro conjI, (elim conjE, assumption)+)
  have e: "[''k1'', ''k2'', ''k3''] = [''k1''] @ ''k2'' # [''k3'']" by simp
  from split[rule_format, OF e] obtain rs1 out rs2 w1 w2 where d:
    "rs = rs1 @ out # rs2"
    "batch_loop ?E ''token-1'' [''k1''] [] ?W0 = (Inr rs1, w1)"
    "isl (fst (try_key ?E ''token-1'' ''k2'' [] w1)) \<longrightarrow> status out = ''error'' \<and> projectKey out = ''k2''"
    by (elim exE conjE)
  from d(2) first have rs1: "rs1 = [?o1]" "w1 = ?W1" by simp_all
  with d(3) fails have out: "status out = ''error''" by simp
  have "(case fst (create_incidents ?E three_keys empty_world) of
           Some r \<Rightarrow> (case json r of BatchBody m rs \<Rightarrow> map status rs | _ \<Rightarrow> [])
         | None \<Rightarrow> [])
        = [''incident_created'', ''error'', ''incident_created'']"
    by code_simp
  with r have st: "map status rs = [''incident_created'', ''error'', ''incident_created'']"
    by simp
  from d(1) rs1(1) out have second: "status (rs ! 1) = ''error''" by simp
  have "\<exists>rs w'. create_incidents ?E three_keys empty_world
          = (Some \<lparr>code = 200, json = BatchBody ''Batch processed'' rs\<rparr>, w')
      \<and> map projectKey rs = [''k1'', ''k2'', ''k3'']
      \<and> status (rs ! 1) = ''error''
      \<and> map status rs = [''incident_created'', ''error'', ''incident_created'']"
    by (rule exI[of _ rs], rule exI[of _ w'], intro conjI) (rule r, rule keys, rule second, rule st)
  with tok fails show ?thesis by (intro conjI)
qed

text \<open>
  C7. \<open>sendIncidentEmail\<close> always returns normally, whatever the transport does;
  when the mail channel is not configured it does nothing at all; and when the project
  lookup found a component and the ticket was created, the iteration pushes a record
  with status \<open>incident_created\<close>, whatever happened in the notification.
\<close>

theorem notification_isolated:
  "fst (sendIncidentEmail E inc key pname w) = Inr ()
   \<and> (\<not> truthy_str (SMTP_HOST E) \<or> \<not> truthy_str (EMAIL_FROM E) \<or> \<not> truthy_str (EMAIL_TO E)
        \<longrightarrow> sendIncidentEmail E inc key pname w = (Inr (), w))
   \<and> (\<forall>projectData component w1 created w2.
        retryOperation E (getSonarQubeProject E key)
          (default_policy\<lparr>retries := 2, label := ''sonarqube-'' @ key\<rparr>) w = (Inr projectData, w1)
        \<and> first_component projectData = Some component
        \<and> retryOperation E (createServiceNowIncident E token (batch_payload component key))
            (default_policy\<lparr>retries := 3, label := ''incident-'' @ key\<rparr>) w1 = (Inr created, w2)
        \<longrightarrow> process_key E token key results w
            = (Inr (results @ [\<lparr>projectKey = key, status = ''incident_created'',
                                incident = Some \<lparr>number = number created, sys_id = sys_id created\<rparr>,
                                error = None\<rparr>]),
               snd (sendIncidentEmail E created key (name component) w2)))"
proof (intro conjI allI impI)
  show "fst (sendIncidentEmail E inc key pname w) = Inr ()" by (rule sendIncidentEmail_returns)
next
  assume "\<not> truthy_str (SMTP_HOST E) \<or> \<not> truthy_str (EMAIL_FROM E) \<or> \<not> truthy_str (EMAIL_TO E)"
  then show "sendIncidentEmail E inc key pname w = (Inr (), w)"
    by (simp add: sendIncidentEmail_def)
next
  fix projectData component w1 created w2
  assume a: "retryOperation E (getSonarQubeProject E key)
          (default_policy\<lparr>retries := 2, label := ''sonarqube-'' @ key\<rparr>) w = (Inr projectData, w1)
        \<and> first_component projectData = Some component
        \<and> retryOperation E (createServiceNowIncident E token (batch_payload component key))
            (default_policy\<lparr>retries := 3, label := ''incident-'' @ key\<rparr>) w1 = (Inr created, w2)"
  obtain r3 w3 where s3: "sendIncidentEmail E created key (name component) w2 = (r3, w3)"
    by (cases "sendIncidentEmail E created key (name component) w2")
  with sendIncidentEmail_returns[of E created key "name component" w2] have "r3 = Inr ()" by simp
  with a s3 show "process_key E token key results w
            = (Inr (results @ [\<lparr>projectKey = key, status = ''incident_created'',
                                incident = Some \<lparr>number = number created, sys_id = sys_id created\<rparr>,
                                error = None\<rparr>]),
               snd (sendIncidentEmail E created key (name component) w2))"
    by (simp add: process_key_def try_key_def Let_def)
qed

theorem notification_isolated_witness:
  "retryOperation mail_failing_env (getSonarQubeProject mail_failing_env ''k1'')
     (default_policy\<lparr>retries := 2, label := ''sonarqube-'' @ ''k1''\<rparr>) empty_world
   = (Inr \<lparr>components = Some [\<lparr>name = Some ''Project One''\<rparr>]\<rparr>,
      \<lparr>cachedToken = None, tokenExpiry = None, trace = [EvSonar ''k1'']\<rparr>)
   \<and> first_component \<lparr>components = Some [\<lparr>name = Some ''Project One''\<rparr>]\<rparr>
     = Some \<lparr>name = Some ''Project One''\<rparr>
   \<and> retryOperation mail_failing_env
       (createServiceNowIncident mail_failing_env ''token-1''
          (batch_payload \<lparr>name = Some ''Project One''\<rparr> ''k1''))
       (default_policy\<lparr>retries := 3, label := ''incident-'' @ ''k1''\<rparr>)
       \<lparr>cachedToken = None, tokenExpiry = None, trace = [EvSonar ''k1'']\<rparr>
     = (Inr \<lparr>number = Some ''INC0001'', sys_id = Some ''abc''\<rparr>,
        \<lparr>cachedToken = None, tokenExpiry = None,
         trace = [EvSonar ''k1'',
                  EvIncident ''token-1'' (batch_payload \<lparr>name = Some ''Project One''\<rparr> ''k1'')]\<rparr>)
   \<and> fst (email_try mail_failing_env \<lparr>number = Some ''INC0001'', sys_id = Some ''abc''\<rparr>
            ''k1'' (Some ''Project One'')
            \<lparr>cachedToken = None, tokenExpiry = None,
             trace = [EvSonar ''k1'',
                      EvIncident ''token-1'' (batch_payload \<lparr>name = Some ''Project One''\<rparr> ''k1'')]\<rparr>)
     = Inl (Error ''connect ECONNREFUSED'')
   \<and> fst (process_key mail_failing_env ''token-1'' ''k1'' [] empty_world)
     = Inr [\<lparr>projectKey = ''k1'', status = ''incident_created'',
             incident = Some \<lparr>number = Some ''INC0001'', sys_id = Some ''abc''\<rparr>,
             error = None\<rparr>]"
proof -
  let ?D = "\<lparr>components = Some [\<lparr>name = Some ''Project One''\<rparr>]\<rparr>"
  let ?C = "\<lparr>name = Some ''Project One''\<rparr>"
  let ?I = "\<lparr>number = Some ''INC0001'', sys_id = Some ''abc''\<rparr>"
  let ?W1 = "\<lparr>cachedToken = None, tokenExpiry = None, trace = [EvSonar ''k1'']\<rparr>"
  let ?W2 = "\<lparr>cachedToken = None, tokenExpiry = None,
         trace = [EvSonar ''k1'', EvIncident ''token-1'' (batch_payload ?C ''k1'')]\<rparr>"
  have h1: "retryOperation mail_failing_env (getSonarQubeProject mail_failing_env ''k1'')
     (default_policy\<lparr>retries := 2, label := ''sonarqube-'' @ ''k1''\<rparr>) empty_world = (Inr ?D, ?W1)"
    by (simp add: run_defs scenario_defs batch_scenario_defs)
  have h2: "first_component ?D = Some ?C" by (simp add: first_component_def)
  have h3: "retryOperation mail_failing_env
       (createServiceNowIncident mail_failing_env ''token-1'' (batch_payload ?C ''k1''))
       (default_policy\<lparr>retries := 3, label := ''incident-'' @ ''k1''\<rparr>) ?W1 = (Inr ?I, ?W2)"
    by (simp add: run_defs scenario_defs batch_scenario_defs)
  have h4: "fst (email_try mail_failing_env ?I ''k1'' (Some ''Project One'') ?W2)
     = Inl (Error ''connect ECONNREFUSED'')"
    by (simp add: run_defs scenario_defs batch_scenario_defs)
  from h1 h2 h3 have h: "retryOperation mail_failing_env (getSonarQubeProject mail_failing_env ''k1'')
          (default_policy\<lparr>retries := 2, label := ''sonarqube-'' @ ''k1''\<rparr>) empty_world = (Inr ?D, ?W1)
        \<and> first_component ?D = Some ?C
        \<and> retryOperation mail_failing_env (createServiceNowIncident mail_failing_env ''token-1'' (batch_payload ?C ''k1''))
            (default_policy\<lparr>retries := 3, label := ''incident-'' @ ''k1''\<rparr>) ?W1 = (Inr ?I, ?W2)"
    by (intro conjI)
  note inst = notification_isolated[of mail_failing_env ?I "''k1''" "Some ''Project One''" empty_world
      "''token-1''" "[]", THEN conjunct2, THEN conjunct2, rule_format, OF h]
  then have h5: "fst (process_key mail_failing_env ''token-1'' ''k1'' [] empty_world)
     = Inr [\<lparr>projectKey = ''k1'', status = ''incident_created'',
             incident = Some ?I, error = None\<rparr>]"
    by simp
  from h1 h2 h3 h4 h5 show ?thesis by (intro conjI)
qed

lemma grows_getSonarQubeProject:
  "EvSonar key \<in> A \<Longrightarrow> grows A w (snd (getSonarQubeProject E key w))"
  by (auto simp: getSonarQubeProject_def Let_def grows_def split: sum.splits option.splits)

text \<open>
  C8. When the project lookup of a key succeeds (possibly after retries) with zero
  components, the iteration pushes a record with status \<open>not_found\<close> for the key,
  and between the start of the iteration and its end there is no call to the incident
  table.
\<close>

theorem not_found_short_circuit:
  assumes "retryOperation E (getSonarQubeProject E key)
             (default_policy\<lparr>retries := 2, label := ''sonarqube-'' @ key\<rparr>) w = (Inr projectData, w1)"
    and "components projectData = Some []"
  shows "process_key E token key results w
           = (Inr (results @ [\<lparr>projectKey = key, status = ''not_found'',
                               incident = None, error = None\<rparr>]), w1)
       \<and> (\<exists>d. trace w1 = trace w @ d \<and> (\<forall>tok p. EvIncident tok p \<notin> set d))"
proof -
  let ?A = "insert (EvSonar key) (insert EvRandom (range EvSleep))"
  have "grows ?A w (snd (retryOperation E (getSonarQubeProject E key)
            (default_policy\<lparr>retries := 2, label := ''sonarqube-'' @ key\<rparr>) w))"
    by (rule retryOperation_grows_always) (auto simp: grows_getSonarQubeProject)
  from this[unfolded assms(1) snd_conv] have "grows ?A w w1" .
  then have "\<exists>d. trace w1 = trace w @ d \<and> (\<forall>tok p. EvIncident tok p \<notin> set d)"
    by (auto simp: grows_def)
  moreover have "process_key E token key results w
           = (Inr (results @ [\<lparr>projectKey = key, status = ''not_found'',
                               incident = None, error = None\<rparr>]), w1)"
    using assms by (simp add: process_key_def try_key_def first_component_def)
  ultimately show ?thesis by simp
qed

theorem not_found_short_circuit_witness:
  "(\<exists>w1. retryOperation no_components_env (getSonarQubeProject no_components_env ''k1'')
             (default_policy\<lparr>retries := 2, label := ''sonarqube-'' @ ''k1''\<rparr>) empty_world
           = (Inr \<lparr>components = Some []\<rparr>, w1)
        \<and> process_key no_components_env ''token-1'' ''k1'' [] empty_world
           = (Inr ([] @ [\<lparr>projectKey = ''k1'', status = ''not_found'',
                               incident = None, error = None\<rparr>]), w1)
        \<and> (\<exists>d. trace w1 = trace empty_world @ d \<and> (\<forall>tok p. EvIncident tok p \<notin> set d)))
   \<and> components \<lparr>components = Some []\<rparr> = Some []"
proof -
  have "fst (retryOperation no_components_env (getSonarQubeProject no_components_env ''k1'')
             (default_policy\<lparr>retries := 2, label := ''sonarqube-'' @ ''k1''\<rparr>) empty_world)
        = Inr \<lparr>components = Some []\<rparr>"
    by (simp add: run_defs scenario_defs batch_scenario_defs)
  then obtain w1 where h1: "retryOperation no_components_env (getSonarQubeProject no_components_env ''k1'')
             (default_policy\<lparr>retries := 2, label := ''sonarqube-'' @ ''k1''\<rparr>) empty_world
           = (Inr \<lparr>components = Some []\<rparr>, w1)"
    by (rule exE[OF pair_fstI])
  have h2: "components \<lparr>components = Some []\<rparr> = Some []" by simp
  note inst = not_found_short_circuit[OF h1 h2, of "''token-1''" "[]"]
  have "retryOperation no_components_env (getSonarQubeProject no_components_env ''k1'')
             (default_policy\<lparr>retries := 2, label := ''sonarqube-'' @ ''k1''\<rparr>) empty_world
           = (Inr \<lparr>components = Some []\<rparr>, w1)
        \<and> process_key no_components_env ''token-1'' ''k1'' [] empty_world
           = (Inr ([] @ [\<lparr>projectKey = ''k1'', status = ''not_found'',
                               incident = None, error = None\<rparr>]), w1)
        \<and> (\<exists>d. trace w1 = trace empty_world @ d \<and> (\<forall>tok p. EvIncident tok p \<notin> set d))"
    using h1 inst by (rule conjI)
  then have "\<exists>w1. retryOperation no_components_env (getSonarQubeProject no_components_env ''k1'')
             (default_policy\<lparr>retries := 2, label := ''sonarqube-'' @ ''k1''\<rparr>) empty_world
           = (Inr \<lparr>components = Some []\<rparr>, w1)
        \<and> process_key no_components_env ''token-1'' ''k1'' [] empty_world
           = (Inr ([] @ [\<lparr>projectKey = ''k1'', status = ''not_found'',
                               incident = None, error = None\<rparr>]), w1)
        \<and> (\<exists>d. trace w1 = trace empty_world @ d \<and> (\<forall>tok p. EvIncident tok p \<notin> set d))"
    by (intro exI)
  with h2 show ?thesis by (intro conjI)
qed

section \<open>Properties of the webhook and of the retried ticket creation\<close>

lemmas webhook_scenario_defs = stale_env_def gate_failed_def gate_ok_def


text \<open>
  C1, as stated, fails. In this run the first ticket creation is answered with 401; the
  three retries send the same token \<open>stale\<close> again, and the only OAuth exchange of the
  run is the one before the first attempt, although a second exchange would have
  yielded a token the ticketing service accepts.
\<close>

theorem retry_fresh_token_counterexample:
  "answered_401 stale_env [EvOAuth, EvNow, EvIncident ''stale'' (webhook_payload gate_failed ''p'')]
   \<and> incident_tokens (trace (snd (sonarqube_webhook stale_env gate_failed empty_world)))
       = [''stale'', ''stale'', ''stale'', ''stale'']
   \<and> oauth_calls (trace (snd (sonarqube_webhook stale_env gate_failed empty_world))) = 1
   \<and> take 3 (trace (snd (sonarqube_webhook stale_env gate_failed empty_world)))
       = [EvOAuth, EvNow, EvIncident ''stale'' (webhook_payload gate_failed ''p'')]
   \<and> fst (sonarqube_webhook stale_env gate_failed empty_world)
       = Some \<lparr>code = 500, json = FailureBody ''Webhook processing failed''
                                      ''ServiceNow incident error: 401 - {}''\<rparr>"
  by code_simp

lemma grows_createServiceNowIncident:
  "EvIncident token p \<in> A \<Longrightarrow> grows A w (snd (createServiceNowIncident E token p w))"
  using createServiceNowIncident_cases[of E token p w]
  by (cases "createServiceNowIncident E token p w") (simp add: grows_def)

lemma cleared_cache_refetch:
  assumes "cachedToken v = None" and "getServiceNowToken E v = (r, v')"
  shows "(\<exists>d. trace v' = trace v @ EvOAuth # d)
       \<and> (\<forall>data tok. oauth_post E (trace v @ [EvOAuth]) = Inr data
              \<and> access_token data = Some tok \<and> tok \<noteq> []
            \<longrightarrow> r = Inr tok \<and> cachedToken v' = Some tok)"
proof -
  from assms(1) have cv: "cached_valid E v = (None, v)"
    by (simp add: cached_valid_def truthy_str_def)
  have "\<exists>d. trace v' = trace v @ EvOAuth # d"
    using assms(2) cv
    by (auto simp: getServiceNowToken_def Let_def now_def split: sum.splits option.splits if_splits)
  moreover have "r = Inr tok \<and> cachedToken v' = Some tok"
    if "oauth_post E (trace v @ [EvOAuth]) = Inr data" "access_token data = Some tok" "tok \<noteq> []"
    for data tok
    using assms(2) cv that by (auto simp: getServiceNowToken_def Let_def now_def)
  ultimately show ?thesis by blast
qed

text \<open>
  C1, amended. A ticket creation answered with 401 throws with both cache variables
  already cleared. The retried ticket creation consists of incident POSTs that all
  carry the token and the payload the call site passed, of random draws and of sleeps:
  no retry performs an OAuth exchange or sends another token. The fresh token is
  fetched by the next call of \<open>getServiceNowToken\<close>, which on a cleared cache begins
  with the OAuth exchange.
\<close>

theorem retry_resends_token:
  "(answered_401 E (trace w @ [EvIncident token payload]) \<longrightarrow>
      (\<exists>e w1. createServiceNowIncident E token payload w = (Inl e, w1)
             \<and> cachedToken w1 = None \<and> tokenExpiry w1 = None))
   \<and> (\<exists>d. trace (snd (retryOperation E (createServiceNowIncident E token payload) pol w))
             = trace w @ d
          \<and> EvOAuth \<notin> set d
          \<and> (\<forall>tok p. EvIncident tok p \<in> set d \<longrightarrow> tok = token \<and> p = payload))
   \<and> (\<forall>v r v'. cachedToken v = None \<and> getServiceNowToken E v = (r, v')
          \<longrightarrow> (\<exists>d. trace v' = trace v @ EvOAuth # d))"
proof (intro conjI impI allI)
  assume a: "answered_401 E (trace w @ [EvIncident token payload])"
  obtain r w1 where c: "createServiceNowIncident E token payload w = (r, w1)"
    by (cases "createServiceNowIncident E token payload w")
  from createServiceNowIncident_cases[OF c] a
  have "isl r" "cachedToken w1 = None" "tokenExpiry w1 = None" by (simp_all add: cache_def)
  with c show "\<exists>e w1. createServiceNowIncident E token payload w = (Inl e, w1)
             \<and> cachedToken w1 = None \<and> tokenExpiry w1 = None"
    by (cases r) auto
next
  let ?A = "insert (EvIncident token payload) (insert EvRandom (range EvSleep))"
  have "grows ?A w (snd (retryOperation E (createServiceNowIncident E token payload) pol w))"
    by (rule retryOperation_grows_always) (auto simp: grows_createServiceNowIncident)
  then show "\<exists>d. trace (snd (retryOperation E (createServiceNowIncident E token payload) pol w))
             = trace w @ d
          \<and> EvOAuth \<notin> set d
          \<and> (\<forall>tok p. EvIncident tok p \<in> set d \<longrightarrow> tok = token \<and> p = payload)"
    by (auto simp: grows_def)
next
  fix v :: "'b world_scheme" and r v'
  assume "cachedToken v = None \<and> getServiceNowToken E v = (r, v')"
  then show "\<exists>d. trace v' = trace v @ EvOAuth # d"
    using cleared_cache_refetch[of v E r v'] by blast
qed

theorem retry_resends_token_witness:
  "answered_401 unauthorized_env (trace warm_world @ [EvIncident ''token-0'' some_payload])
   \<and> (\<exists>e w1. createServiceNowIncident unauthorized_env ''token-0'' some_payload warm_world
                = (Inl e, w1)
             \<and> cachedToken w1 = None \<and> tokenExpiry w1 = None)
   \<and> incident_tokens (trace (snd (retryOperation unauthorized_env
         (createServiceNowIncident unauthorized_env ''token-0'' some_payload)
         default_policy warm_world)))
      = [''token-0'', ''token-0'', ''token-0'', ''token-0'']
   \<and> oauth_calls (trace (snd (retryOperation unauthorized_env
         (createServiceNowIncident unauthorized_env ''token-0'' some_payload)
         default_policy warm_world))) = 0"
proof -
  have h: "answered_401 unauthorized_env (trace warm_world @ [EvIncident ''token-0'' some_payload])"
    by code_simp
  note inst = retry_resends_token[of unauthorized_env warm_world "''token-0''" some_payload
      default_policy]
  from inst[THEN conjunct1] h
  have a: "\<exists>e w1. createServiceNowIncident unauthorized_env ''token-0'' some_payload warm_world
                = (Inl e, w1)
             \<and> cachedToken w1 = None \<and> tokenExpiry w1 = None"
    by (rule mp)
  have b: "incident_tokens (trace (snd (retryOperation unauthorized_env
         (createServiceNowIncident unauthorized_env ''token-0'' some_payload)
         default_policy warm_world)))
      = [''token-0'', ''token-0'', ''token-0'', ''token-0'']"
    by code_simp
  have c: "oauth_calls (trace (snd (retryOperation unauthorized_env
         (createServiceNowIncident unauthorized_env ''token-0'' some_payload)
         default_policy warm_world))) = 0"
    by code_simp
  from h a b c show ?thesis by (intro conjI)
qed

text \<open>
  C9, as stated, fails. The quality gate status differs from \<open>OK\<close>, the OAuth
  endpoint does not answer: the response is the 500 failure, no incident POST is made
  and no ticket is created.
\<close>

theorem webhook_iff_counterexample:
  "project_key gate_failed = Some ''p''
   \<and> qualityGate_status gate_failed \<noteq> Some ''OK''
   \<and> fst (sonarqube_webhook oauth_down_env gate_failed empty_world)
       = Some \<lparr>code = 500, json = FailureBody ''Webhook processing failed''
                   ''ServiceNow OAuth unreachable: timeout of 15000ms exceeded''\<rparr>
   \<and> incident_tokens (trace (snd (sonarqube_webhook oauth_down_env gate_failed empty_world))) = []"
  by code_simp


text \<open>
  C9, amended. For a webhook request with a project key: when the status is the string
  \<open>OK\<close>, the response is the no-action message and the state, trace included, is
  unchanged (no downstream call). The response reports a created incident if and only
  if the status differs from \<open>OK\<close> (also when absent) and both the token acquisition
  and the ticket creation succeed within their retries; when the status differs from
  \<open>OK\<close> and one of them fails, the response is the 500 failure.
\<close>

theorem webhook_gate:
  assumes "project_key req = Some key" and "key \<noteq> []"
  shows "(qualityGate_status req = Some ''OK'' \<longrightarrow>
            sonarqube_webhook E req w
            = (Some \<lparr>code = 200, json = MessageBody ''Quality Gate OK, no action needed''\<rparr>, w))
       \<and> ((\<exists>inc w'. sonarqube_webhook E req w
                      = (Some \<lparr>code = 200,
                               json = IncidentBody ''Incident created from webhook'' inc\<rparr>, w'))
            \<longleftrightarrow> qualityGate_status req \<noteq> Some ''OK''
                \<and> (\<exists>token w1 created w2.
                      retryOperation E (getServiceNowToken E)
                        (default_policy\<lparr>retries := 3, label := ''servicenow-oauth''\<rparr>) w
                      = (Inr token, w1)
                    \<and> retryOperation E (createServiceNowIncident E token (webhook_payload req key))
                        (default_policy\<lparr>retries := 3, label := ''incident-'' @ key\<rparr>) w1
                      = (Inr created, w2)))
       \<and> (qualityGate_status req \<noteq> Some ''OK'' \<longrightarrow>
             (\<exists>inc w'. sonarqube_webhook E req w
                      = (Some \<lparr>code = 200,
                               json = IncidentBody ''Incident created from webhook'' inc\<rparr>, w'))
           \<or> (\<exists>m w'. sonarqube_webhook E req w
                      = (Some \<lparr>code = 500, json = FailureBody ''Webhook processing failed'' m\<rparr>, w')))"
proof (cases "qualityGate_status req = Some ''OK''")
  case True
  with assms have "sonarqube_webhook E req w
            = (Some \<lparr>code = 200, json = MessageBody ''Quality Gate OK, no action needed''\<rparr>, w)"
    by (simp add: sonarqube_webhook_def webhook_try_def)
  with True show ?thesis by simp
next
  case st: False
  let ?p1 = "default_policy\<lparr>retries := 3, label := ''servicenow-oauth''\<rparr>"
  let ?p2 = "default_policy\<lparr>retries := 3, label := ''incident-'' @ key\<rparr>"
  obtain r1 w1 where s1: "retryOperation E (getServiceNowToken E) ?p1 w = (r1, w1)"
    by (cases "retryOperation E (getServiceNowToken E) ?p1 w")
  show ?thesis
  proof (cases r1)
    case (Inl e1)
    have "message e1 \<noteq> None"
    proof (rule message_retryOperation[where fn = "getServiceNowToken E" and pol = ?p1
          and E = E and w = w and w' = w1])
      show "0 \<le> retries ?p1" by (simp add: default_policy_def)
      show "retryOperation E (getServiceNowToken E) ?p1 w = (Inl e1, w1)" using s1 Inl by simp
    qed (rule message_getServiceNowToken)
    then obtain m where "message e1 = Some m" by auto
    with s1 Inl st assms
    have "sonarqube_webhook E req w
          = (Some \<lparr>code = 500, json = FailureBody ''Webhook processing failed'' m\<rparr>, w1)"
      by (simp add: sonarqube_webhook_def webhook_try_def)
    with st s1 Inl show ?thesis by simp
  next
    case (Inr token)
    let ?fn = "createServiceNowIncident E token (webhook_payload req key)"
    obtain r2 w2 where s2: "retryOperation E ?fn ?p2 w1 = (r2, w2)"
      by (cases "retryOperation E ?fn ?p2 w1")
    show ?thesis
    proof (cases r2)
      case (Inl e2)
      have "message e2 \<noteq> None"
      proof (rule message_retryOperation[where fn = ?fn and pol = ?p2
            and E = E and w = w1 and w' = w2])
        show "0 \<le> retries ?p2" by (simp add: default_policy_def)
        show "retryOperation E ?fn ?p2 w1 = (Inl e2, w2)" using s2 Inl by simp
      qed (rule message_createServiceNowIncident)
      then obtain m where "message e2 = Some m" by auto
      with s1 Inr s2 Inl st assms
      have "sonarqube_webhook E req w
            = (Some \<lparr>code = 500, json = FailureBody ''Webhook processing failed'' m\<rparr>, w2)"
        by (simp add: sonarqube_webhook_def webhook_try_def Let_def)
      with st s1 Inr s2 Inl show ?thesis by simp
    next
      case created: (Inr created)
      obtain r3 w3 where s3: "sendIncidentEmail E created key (project_name req) w2 = (r3, w3)"
        by (cases "sendIncidentEmail E created key (project_name req) w2")
      with sendIncidentEmail_returns[of E created key "project_name req" w2]
      have "r3 = Inr ()" by simp
      with s1 Inr s2 created s3 st assms
      have "sonarqube_webhook E req w
            = (Some \<lparr>code = 200,
                     json = IncidentBody ''Incident created from webhook''
                              \<lparr>number = number created, sys_id = sys_id created\<rparr>\<rparr>, w3)"
        by (simp add: sonarqube_webhook_def webhook_try_def Let_def)
      with st s1 Inr s2 created show ?thesis by simp
    qed
  qed
qed

theorem webhook_gate_witness:
  "project_key gate_ok = Some ''p'' \<and> ''p'' \<noteq> []
   \<and> qualityGate_status gate_ok = Some ''OK''
   \<and> sonarqube_webhook calm_env gate_ok empty_world
      = (Some \<lparr>code = 200, json = MessageBody ''Quality Gate OK, no action needed''\<rparr>, empty_world)
   \<and> project_key gate_failed = Some ''p''
   \<and> qualityGate_status gate_failed \<noteq> Some ''OK''
   \<and> retryOperation calm_env (getServiceNowToken calm_env)
        (default_policy\<lparr>retries := 3, label := ''servicenow-oauth''\<rparr>) empty_world
      = (Inr ''token-1'',
         \<lparr>cachedToken = Some ''token-1'', tokenExpiry = Some 3601000, trace = [EvOAuth, EvNow]\<rparr>)
   \<and> retryOperation calm_env
        (createServiceNowIncident calm_env ''token-1'' (webhook_payload gate_failed ''p''))
        (default_policy\<lparr>retries := 3, label := ''incident-'' @ ''p''\<rparr>)
        \<lparr>cachedToken = Some ''token-1'', tokenExpiry = Some 3601000, trace = [EvOAuth, EvNow]\<rparr>
      = (Inr \<lparr>number = Some ''INC0001'', sys_id = Some ''abc''\<rparr>,
         \<lparr>cachedToken = Some ''token-1'', tokenExpiry = Some 3601000,
          trace = [EvOAuth, EvNow, EvIncident ''token-1'' (webhook_payload gate_failed ''p'')]\<rparr>)
   \<and> (\<exists>inc w'. sonarqube_webhook calm_env gate_failed empty_world
         = (Some \<lparr>code = 200, json = IncidentBody ''Incident created from webhook'' inc\<rparr>, w'))"
proof -
  let ?W1 = "\<lparr>cachedToken = Some ''token-1'', tokenExpiry = Some 3601000, trace = [EvOAuth, EvNow]\<rparr>"
  let ?W2 = "\<lparr>cachedToken = Some ''token-1'', tokenExpiry = Some 3601000,
          trace = [EvOAuth, EvNow, EvIncident ''token-1'' (webhook_payload gate_failed ''p'')]\<rparr>"
  let ?I = "\<lparr>number = Some ''INC0001'', sys_id = Some ''abc''\<rparr>"
  have h: "project_key gate_ok = Some ''p''" "''p'' \<noteq> []"
    and st: "qualityGate_status gate_ok = Some ''OK''"
    by (simp_all add: gate_ok_def)
  from webhook_gate[OF h, of calm_env empty_world, THEN conjunct1] st
  have a: "sonarqube_webhook calm_env gate_ok empty_world
      = (Some \<lparr>code = 200, json = MessageBody ''Quality Gate OK, no action needed''\<rparr>, empty_world)"
    by (rule mp)
  have b: "project_key gate_failed = Some ''p''" "qualityGate_status gate_failed \<noteq> Some ''OK''"
    by (simp_all add: gate_failed_def)
  have t: "retryOperation calm_env (getServiceNowToken calm_env)
        (default_policy\<lparr>retries := 3, label := ''servicenow-oauth''\<rparr>) empty_world
      = (Inr ''token-1'', ?W1)"
    by (simp add: run_defs scenario_defs)
  have c: "retryOperation calm_env
        (createServiceNowIncident calm_env ''token-1'' (webhook_payload gate_failed ''p''))
        (default_policy\<lparr>retries := 3, label := ''incident-'' @ ''p''\<rparr>) ?W1 = (Inr ?I, ?W2)"
    by (simp add: run_defs scenario_defs webhook_scenario_defs)
  have rhs: "qualityGate_status gate_failed \<noteq> Some ''OK''
     \<and> (\<exists>token w1 created w2.
           retryOperation calm_env (getServiceNowToken calm_env)
             (default_policy\<lparr>retries := 3, label := ''servicenow-oauth''\<rparr>) empty_world
           = (Inr token, w1)
         \<and> retryOperation calm_env (createServiceNowIncident calm_env token (webhook_payload gate_failed ''p''))
             (default_policy\<lparr>retries := 3, label := ''incident-'' @ ''p''\<rparr>) w1
           = (Inr created, w2))"
    by (rule conjI, rule b(2), rule exI[of _ "''token-1''"], rule exI[of _ ?W1], rule exI[of _ ?I],
        rule exI[of _ ?W2], rule conjI, rule t, rule c)
  from webhook_gate[OF b(1) h(2), of calm_env empty_world, THEN conjunct2, THEN conjunct1] rhs
  have d: "\<exists>inc w'. sonarqube_webhook calm_env gate_failed empty_world
         = (Some \<lparr>code = 200, json = IncidentBody ''Incident created from webhook'' inc\<rparr>, w')"
    by (rule iffD2)
  from h st a b t c d show ?thesis by (intro conjI)
qed

end
